theory Spec2Isabelle
  imports Complex_Main "HOL-Library.Monad_Syntax"
begin

section \<open>The venue-booking backend: data model\<close>

text \<open>
  The controllers of the backend are asynchronous Express handlers over Mongoose models.
  Each handler is embedded as a function from the validation result of the request, the
  store, the authenticated user (\<open>req.user\<close>, when the route is protected), the path
  parameter and the request body to the response and the store afterwards.

  Object ids are natural numbers. A request body is a record of optional fields: a field
  that the JSON body does not carry is \<open>None\<close>. The numbers of a body have the type that
  the route validators ask for. The ids of a venue body are the strings of the request,
  which the store casts, and the password of a login body is a JSON string or number,
  since the login validators accept both; the ids of a booking body are taken as cast.

  The documents hold the fields that the schemas declare, and the string setter \<open>trim\<close>
  of \<open>userSchema\<close> and \<open>venueSchema\<close> runs on documents, updates and query filters.
  Venues carry the \<open>createdAt\<close>/\<open>updatedAt\<close> stamps that \<open>timestamps: true\<close> makes the
  store maintain; the stamps of users and bookings, which no statement below compares,
  and the read-side \<open>populate\<close> joins are not part of the model.
\<close>

type_synonym oid = nat

type_synonym validation_error = "string \<times> string"

record user =
  user_oid :: oid
  firstname :: string
  lastname :: string
  username :: string
  password :: string
  role :: string

record venue =
  venue_oid :: oid
  name :: string
  district_id :: oid
  address :: string
  capacity :: int
  price_seat :: rat
  phone_number :: string
  status :: string
  owner_id :: oid
  createdAt :: int
  updatedAt :: int

record image =
  image_oid :: oid
  image_venue_id :: oid
  image_url :: string

record booking =
  booking_oid :: oid
  venue_id :: oid
  reservation_date :: int
  guest_count :: int
  client_phone :: string
  user_id :: oid
  booking_status :: string

record store =
  users :: "user list"
  venues :: "venue list"
  images :: "image list"
  bookings :: "booking list"
  next_oid :: oid

text \<open>
  What a handler can throw into \<open>next(error)\<close> besides an \<open>AppError\<close>: a Mongoose
  validation or cast error, a duplicate key reported by a unique index, a JavaScript
  \<open>TypeError\<close> on reading a property of \<open>null\<close>, the error \<open>Illegal arguments\<close> of
  bcryptjs.
\<close>

datatype exn = ValidationError | CastError | DuplicateKey | TypeError | IllegalArguments

text \<open>
  A response is \<open>res.status(n).json({success: true, data})\<close>, the validation reply
  \<open>res.status(400).json({errors})\<close>, \<open>next(new AppError(message, statusCode))\<close> or
  \<open>next(error)\<close> for a thrown error.
\<close>

datatype 'a response =
    Json nat 'a
  | Errors nat "validation_error list"
  | AppError string nat
  | Thrown exn

text \<open>
  Modelled from the spec: the error middleware (\<open>middleware/errorMiddleware.js\<close>) and
  \<open>utils/appError.js\<close> are not among the sources. An \<open>AppError\<close> is answered with the
  status code it carries, and an unclassified failure with a generic 500.
\<close>

fun statusCode :: "'a response \<Rightarrow> nat" where
  "statusCode (Json n d) = n"
| "statusCode (Errors n es) = n"
| "statusCode (AppError m n) = n"
| "statusCode (Thrown e) = 500"

text \<open>
  The primitives of the language and of the libraries that the handlers call:
  \<open>bcrypt.hash\<close> and \<open>bcrypt.compare\<close> on strings, \<open>new Date(s)\<close> (\<open>None\<close> is the
  invalid date), \<open>Date.prototype.toISOString\<close>, the \<open>isISO8601\<close> validator, \<open>jwt.sign\<close>
  and \<open>jwt.verify\<close>, \<open>String.prototype.trim\<close>, the cast of a string to an ObjectId
  (\<open>None\<close> is the cast error), the digits that \<open>Number.prototype.toString\<close> prints
  for a number beyond the safe integers (the shortest digits that read back as the same
  double, in exponential notation from \<open>1e21\<close> on), and the clock that the store reads
  when it stamps a document.
  They are parameters of the model.
\<close>

record env =
  bcrypt_hash :: "string \<Rightarrow> string"
  bcrypt_compare :: "string \<Rightarrow> string \<Rightarrow> bool"
  parse_date :: "string \<Rightarrow> int option"
  toISOString :: "int \<Rightarrow> string"
  isISO8601 :: "string \<Rightarrow> bool"
  jwt_sign :: "oid \<Rightarrow> string"
  jwt_verify :: "string \<Rightarrow> oid option"
  trim :: "string \<Rightarrow> string"
  cast_ObjectId :: "string \<Rightarrow> oid option"
  shortest_digits :: "int \<Rightarrow> string"
  now :: int

subsection \<open>Store primitives\<close>

text \<open>\<open>Model.findById(id)\<close>; an undefined id finds nothing.\<close>

definition User_findById :: "store \<Rightarrow> oid option \<Rightarrow> user option" where
  "User_findById st i = (case i of None \<Rightarrow> None | Some k \<Rightarrow> find (\<lambda>u. user_oid u = k) (users st))"

definition Venue_findById :: "store \<Rightarrow> oid option \<Rightarrow> venue option" where
  "Venue_findById st i = (case i of None \<Rightarrow> None | Some k \<Rightarrow> find (\<lambda>v. venue_oid v = k) (venues st))"

definition Booking_findById :: "store \<Rightarrow> oid option \<Rightarrow> booking option" where
  "Booking_findById st i = (case i of None \<Rightarrow> None | Some k \<Rightarrow> find (\<lambda>b. booking_oid b = k) (bookings st))"

text \<open>Replace the first document that satisfies \<open>p\<close>, as an update of one document does.\<close>

fun update_first :: "('a \<Rightarrow> bool) \<Rightarrow> ('a \<Rightarrow> 'a) \<Rightarrow> 'a list \<Rightarrow> 'a list" where
  "update_first p f [] = []"
| "update_first p f (x # xs) = (if p x then f x # xs else x # update_first p f xs)"

subsection \<open>Middleware\<close>

text \<open>
  \<open>protect\<close>: the bearer token of the request (\<open>None\<close> when the header is absent or
  does not carry one) is verified and the user it names is loaded.
\<close>

definition protect :: "env \<Rightarrow> store \<Rightarrow> string option \<Rightarrow> 'a response + user" where
  "protect e st token =
     (case token of
        None \<Rightarrow> Inl (AppError ''Not authorized to access this route'' 401)
      | Some t \<Rightarrow>
          (case jwt_verify e t of
             None \<Rightarrow> Inl (AppError ''Not authorized to access this route'' 401)
           | Some decoded_id \<Rightarrow>
               (case User_findById st (Some decoded_id) of
                  None \<Rightarrow> Inl (AppError ''Not authorized to access this route'' 401)
                | Some u \<Rightarrow> Inr u)))"

definition authorize :: "string list \<Rightarrow> user \<Rightarrow> 'a response option" where
  "authorize roles req_user =
     (if role req_user \<notin> set roles
      then Some (AppError (''Role '' @ role req_user @ '' is not authorized to access this route'') 403)
      else None)"

section \<open>Venues\<close>

record venue_body =
  body_name :: "string option"
  body_district_id :: "string option"
  body_address :: "string option"
  body_capacity :: "int option"
  body_price_seat :: "rat option"
  body_phone_number :: "string option"
  body_status :: "string option"
  body_owner_id :: "string option"

definition venue_statuses :: "string list" where
  "venue_statuses = [''tasdiqlangan'', ''tasdiqlanmagan'']"

text \<open>\<open>notEmpty()\<close> of express-validator on a string field.\<close>

definition notEmpty :: "string option \<Rightarrow> bool" where
  "notEmpty x = (case x of None \<Rightarrow> False | Some s \<Rightarrow> s \<noteq> [])"

definition check :: "bool \<Rightarrow> string \<Rightarrow> string \<Rightarrow> validation_error list" where
  "check ok field msg = (if ok then [] else [(field, msg)])"

definition validateVenue :: "venue_body \<Rightarrow> validation_error list" where
  "validateVenue b =
     check (notEmpty (body_name b)) ''name'' ''Name is required'' @
     check (notEmpty (body_district_id b)) ''district_id'' ''District is required'' @
     check (notEmpty (body_address b)) ''address'' ''Address is required'' @
     check (case body_capacity b of None \<Rightarrow> False | Some c \<Rightarrow> 1 \<le> c)
       ''capacity'' ''Capacity must be a positive number'' @
     check (body_capacity b \<noteq> None) ''capacity'' ''Capacity must be a positive number'' @
     check (case body_price_seat b of None \<Rightarrow> False | Some p \<Rightarrow> 0 \<le> p)
       ''price_seat'' ''Price per seat must be a positive number'' @
     check (body_price_seat b \<noteq> None) ''price_seat'' ''Price per seat must be a positive number'' @
     check (notEmpty (body_phone_number b)) ''phone_number'' ''Phone number is required'' @
     check (case body_status b of None \<Rightarrow> True | Some s \<Rightarrow> s \<in> set venue_statuses)
       ''status'' ''Status must be tasdiqlangan or tasdiqlanmagan''"

text \<open>The validators of \<open>venueSchema\<close>, run on a whole document.\<close>

definition venueSchema_valid :: "venue \<Rightarrow> bool" where
  "venueSchema_valid v \<longleftrightarrow>
     name v \<noteq> [] \<and> address v \<noteq> [] \<and> 1 \<le> capacity v \<and> 0 \<le> price_seat v \<and>
     phone_number v \<noteq> [] \<and> status v \<in> set venue_statuses"

text \<open>
  \<open>Venue.findByIdAndUpdate(id, update, {new: true, runValidators: true})\<close>. The update
  document is cast first: an id that is not an ObjectId is a cast error, and the name
  goes through \<open>trim\<close>. The update validators (\<open>runValidators: true\<close>) then check the
  fields that the update sets, and only those. The update sets the fields it carries,
  leaves the others and stamps \<open>updatedAt\<close>. The result is the updated document, or
  \<open>None\<close> when no document has the id.
\<close>

definition venue_update_casts :: "env \<Rightarrow> venue_body \<Rightarrow> bool" where
  "venue_update_casts e b \<longleftrightarrow>
     (case body_district_id b of None \<Rightarrow> True | Some x \<Rightarrow> cast_ObjectId e x \<noteq> None) \<and>
     (case body_owner_id b of None \<Rightarrow> True | Some x \<Rightarrow> cast_ObjectId e x \<noteq> None)"

definition cast_or :: "env \<Rightarrow> string option \<Rightarrow> oid \<Rightarrow> oid" where
  "cast_or e x old =
     (case x of None \<Rightarrow> old | Some s \<Rightarrow> (case cast_ObjectId e s of None \<Rightarrow> old | Some i \<Rightarrow> i))"

definition venue_set :: "env \<Rightarrow> venue_body \<Rightarrow> venue \<Rightarrow> venue" where
  "venue_set e b v =
     v\<lparr> name := (case body_name b of None \<Rightarrow> name v | Some x \<Rightarrow> trim e x),
        district_id := cast_or e (body_district_id b) (district_id v),
        address := (case body_address b of None \<Rightarrow> address v | Some x \<Rightarrow> x),
        capacity := (case body_capacity b of None \<Rightarrow> capacity v | Some x \<Rightarrow> x),
        price_seat := (case body_price_seat b of None \<Rightarrow> price_seat v | Some x \<Rightarrow> x),
        phone_number := (case body_phone_number b of None \<Rightarrow> phone_number v | Some x \<Rightarrow> x),
        status := (case body_status b of None \<Rightarrow> status v | Some x \<Rightarrow> x),
        owner_id := cast_or e (body_owner_id b) (owner_id v),
        updatedAt := now e \<rparr>"

definition venue_update_valid :: "env \<Rightarrow> venue_body \<Rightarrow> bool" where
  "venue_update_valid e b \<longleftrightarrow>
     (case body_name b of None \<Rightarrow> True | Some x \<Rightarrow> trim e x \<noteq> []) \<and>
     (case body_address b of None \<Rightarrow> True | Some x \<Rightarrow> x \<noteq> []) \<and>
     (case body_capacity b of None \<Rightarrow> True | Some x \<Rightarrow> 1 \<le> x) \<and>
     (case body_price_seat b of None \<Rightarrow> True | Some x \<Rightarrow> 0 \<le> x) \<and>
     (case body_phone_number b of None \<Rightarrow> True | Some x \<Rightarrow> x \<noteq> []) \<and>
     (case body_status b of None \<Rightarrow> True | Some x \<Rightarrow> x \<in> set venue_statuses)"

definition Venue_findByIdAndUpdate ::
  "env \<Rightarrow> store \<Rightarrow> oid \<Rightarrow> venue_body \<Rightarrow> exn + (venue option \<times> store)" where
  "Venue_findByIdAndUpdate e st i upd =
     (if \<not> venue_update_casts e upd then Inl CastError
      else if \<not> venue_update_valid e upd then Inl ValidationError
      else case Venue_findById st (Some i) of
        None \<Rightarrow> Inr (None, st)
      | Some v \<Rightarrow>
          Inr (Some (venue_set e upd v),
               st\<lparr>venues := update_first (\<lambda>v. venue_oid v = i) (venue_set e upd) (venues st)\<rparr>))"

definition no_venue_fields :: venue_body where
  "no_venue_fields =
     \<lparr> body_name = None, body_district_id = None, body_address = None, body_capacity = None,
       body_price_seat = None, body_phone_number = None, body_status = None,
       body_owner_id = None \<rparr>"

text \<open>\<open>exports.approveVenue\<close> (PUT /api/venues/:id/approve).\<close>

definition approveVenue :: "env \<Rightarrow> store \<Rightarrow> oid \<Rightarrow> venue option response \<times> store" where
  "approveVenue e st i =
     (case Venue_findById st (Some i) of
        None \<Rightarrow> (AppError ''Venue not found'' 404, st)
      | Some venue \<Rightarrow>
          (case Venue_findByIdAndUpdate e st i (no_venue_fields\<lparr>body_status := Some ''tasdiqlangan''\<rparr>) of
             Inl error \<Rightarrow> (Thrown error, st)
           | Inr (venue', st') \<Rightarrow> (Json 200 venue', st')))"

text \<open>
  The route: \<open>router.put("/:id/approve", protect, authorize("admin"), approveVenue)\<close>.
\<close>

definition put_venue_approve ::
  "env \<Rightarrow> store \<Rightarrow> string option \<Rightarrow> oid \<Rightarrow> venue option response \<times> store" where
  "put_venue_approve e st token i =
     (case protect e st token of
        Inl r \<Rightarrow> (r, st)
      | Inr req_user \<Rightarrow>
          (case authorize [''admin''] req_user of
             Some r \<Rightarrow> (r, st)
           | None \<Rightarrow> approveVenue e st i))"

text \<open>
  \<open>Venue.create(doc)\<close>: the document needs every required path, the name goes through
  \<open>trim\<close>, the district id is cast, \<open>status\<close> defaults to \<open>tasdiqlanmagan\<close>, and the
  schema validators run before the insert, which stamps the document. The owner is the
  id that the handler puts into the document.
\<close>

definition venue_of_body :: "env \<Rightarrow> oid \<Rightarrow> oid \<Rightarrow> venue_body \<Rightarrow> venue option" where
  "venue_of_body e i owner b =
     do {
       n \<leftarrow> body_name b;
       ds \<leftarrow> body_district_id b;
       d \<leftarrow> cast_ObjectId e ds;
       a \<leftarrow> body_address b;
       c \<leftarrow> body_capacity b;
       p \<leftarrow> body_price_seat b;
       ph \<leftarrow> body_phone_number b;
       Some \<lparr> venue_oid = i, name = trim e n, district_id = d, address = a, capacity = c,
              price_seat = p, phone_number = ph,
              status = (case body_status b of None \<Rightarrow> ''tasdiqlanmagan'' | Some s \<Rightarrow> s),
              owner_id = owner, createdAt = now e, updatedAt = now e \<rparr>
     }"

definition Venue_create :: "env \<Rightarrow> store \<Rightarrow> oid \<Rightarrow> venue_body \<Rightarrow> exn + (venue \<times> store)" where
  "Venue_create e st owner b =
     (case venue_of_body e (next_oid st) owner b of
        None \<Rightarrow> Inl ValidationError
      | Some v \<Rightarrow>
          if \<not> venueSchema_valid v then Inl ValidationError
          else Inr (v, st\<lparr>venues := venues st @ [v], next_oid := Suc (next_oid st)\<rparr>))"

text \<open>
  \<open>Image.insertMany(docs)\<close>: a document is a venue id and, when it has one, an
  \<open>image_url\<close>; the path is required, and one invalid document rejects the whole batch.
\<close>

fun number_from :: "oid \<Rightarrow> (oid \<times> string) list \<Rightarrow> image list" where
  "number_from i [] = []"
| "number_from i ((v, u) # ds) =
     \<lparr>image_oid = i, image_venue_id = v, image_url = u\<rparr> # number_from (Suc i) ds"

definition Image_insertMany :: "store \<Rightarrow> (oid \<times> string option) list \<Rightarrow> exn + store" where
  "Image_insertMany st docs =
     (if \<exists>d \<in> set docs. \<not> notEmpty (snd d) then Inl ValidationError
      else Inr (st\<lparr>images := images st @
                    number_from (next_oid st)
                      (map (\<lambda>d. (fst d, case snd d of None \<Rightarrow> [] | Some u \<Rightarrow> u)) docs),
                  next_oid := next_oid st + length docs\<rparr>))"

text \<open>
  \<open>exports.createVenue\<close> (POST /api/venues). The document is the body with
  \<open>owner_id: req.user.id\<close> put over whatever owner the body names. The uploaded files,
  when there are any, become image documents \<open>{venue_id, path}\<close>: \<open>path\<close> is not a path
  of \<open>imageSchema\<close>, so these documents carry no \<open>image_url\<close>.
\<close>

definition createVenue ::
  "env \<Rightarrow> validation_error list \<Rightarrow> store \<Rightarrow> user \<Rightarrow> string list \<Rightarrow> venue_body \<Rightarrow>
     venue response \<times> store" where
  "createVenue e errors st req_user files body =
     (if errors \<noteq> [] then (Errors 400 errors, st)
      else case Venue_create e st (user_oid req_user) body of
        Inl error \<Rightarrow> (Thrown error, st)
      | Inr (venue, st') \<Rightarrow>
          if files \<noteq> [] then
            (case Image_insertMany st' (map (\<lambda>file. (venue_oid venue, None)) files) of
               Inl error \<Rightarrow> (Thrown error, st')
             | Inr st'' \<Rightarrow> (Json 201 venue, st''))
          else (Json 201 venue, st'))"

text \<open>
  The route: \<open>router.post("/", protect, authorize("owner", "admin"), validateVenue,
  createVenue)\<close>; no upload middleware is mounted, so there are no files.
\<close>

definition post_venue ::
  "env \<Rightarrow> store \<Rightarrow> string option \<Rightarrow> venue_body \<Rightarrow> venue response \<times> store" where
  "post_venue e st token body =
     (case protect e st token of
        Inl r \<Rightarrow> (r, st)
      | Inr req_user \<Rightarrow>
          (case authorize [''owner'', ''admin''] req_user of
             Some r \<Rightarrow> (r, st)
           | None \<Rightarrow> createVenue e (validateVenue body) st req_user [] body))"

text \<open>\<open>exports.updateVenue\<close> (PUT /api/venues/:id).\<close>

definition updateVenue ::
  "env \<Rightarrow> validation_error list \<Rightarrow> store \<Rightarrow> user \<Rightarrow> oid \<Rightarrow> venue_body \<Rightarrow>
     venue option response \<times> store" where
  "updateVenue e errors st req_user i body =
     (if errors \<noteq> [] then (Errors 400 errors, st)
      else case Venue_findById st (Some i) of
        None \<Rightarrow> (AppError ''Venue not found'' 404, st)
      | Some venue \<Rightarrow>
          if owner_id venue \<noteq> user_oid req_user \<and> role req_user \<noteq> ''admin''
          then (AppError ''Not authorized to update this venue'' 403, st)
          else
            let body' = (if notEmpty (body_status body) \<and> role req_user \<noteq> ''admin''
                         then body\<lparr>body_status := None\<rparr> else body)
            in (case Venue_findByIdAndUpdate e st i body' of
                  Inl error \<Rightarrow> (Thrown error, st)
                | Inr (venue', st') \<Rightarrow> (Json 200 venue', st')))"

text \<open>The route: \<open>router.put("/:id", protect, validateVenue, updateVenue)\<close>.\<close>

definition put_venue ::
  "env \<Rightarrow> store \<Rightarrow> string option \<Rightarrow> oid \<Rightarrow> venue_body \<Rightarrow> venue option response \<times> store" where
  "put_venue e st token i body =
     (case protect e st token of
        Inl r \<Rightarrow> (r, st)
      | Inr req_user \<Rightarrow> updateVenue e (validateVenue body) st req_user i body)"

section \<open>Bookings\<close>

record booking_body =
  bk_venue_id :: "oid option"
  bk_reservation_date :: "string option"
  bk_guest_count :: "int option"
  bk_client_phone :: "string option"
  bk_user_id :: "oid option"
  bk_status :: "string option"

definition booking_statuses :: "string list" where
  "booking_statuses = [''bo'lib o'tgan'', ''endi bo'ladigan'']"

definition validateBooking :: "env \<Rightarrow> booking_body \<Rightarrow> validation_error list" where
  "validateBooking e b =
     check (bk_venue_id b \<noteq> None) ''venue_id'' ''Venue ID is required'' @
     check (notEmpty (bk_reservation_date b)) ''reservation_date'' ''Reservation date is required'' @
     check (case bk_reservation_date b of None \<Rightarrow> False | Some s \<Rightarrow> isISO8601 e s)
       ''reservation_date'' ''Reservation date must be a valid date'' @
     check (case bk_guest_count b of None \<Rightarrow> False | Some g \<Rightarrow> 1 \<le> g)
       ''guest_count'' ''Guest count must be a positive number'' @
     check (bk_guest_count b \<noteq> None) ''guest_count'' ''Guest count must be a positive number'' @
     check (notEmpty (bk_client_phone b)) ''client_phone'' ''Client phone number is required''"

definition validateBookingStatus :: "booking_body \<Rightarrow> validation_error list" where
  "validateBookingStatus b =
     check (notEmpty (bk_status b)) ''status'' ''Status is required'' @
     check (case bk_status b of None \<Rightarrow> False | Some s \<Rightarrow> s \<in> set booking_statuses)
       ''status'' ''Status must be bo'lib o'tgan or endi bo'ladigan''"

text \<open>\<open>new Date(x)\<close> for a body field: the invalid date when the field is absent.\<close>

definition new_Date :: "env \<Rightarrow> string option \<Rightarrow> int option" where
  "new_Date e x = (case x of None \<Rightarrow> None | Some s \<Rightarrow> parse_date e s)"

text \<open>The decimal digits of an integer.\<close>

function digits :: "nat \<Rightarrow> string" where
  "digits n = (if n < 10 then [char_of (48 + n)] else digits (n div 10) @ [char_of (48 + n mod 10)])"
  by pat_completeness auto
termination
  by (relation "measure id") auto

declare digits.simps [simp del]

definition decimal :: "int \<Rightarrow> string" where
  "decimal i = (if i < 0 then CHR ''-'' # digits (nat (- i)) else digits (nat i))"

text \<open>
  A template literal prints a safe integer (below \<open>2^53\<close> in magnitude) with its decimal
  digits. Beyond, it prints the shortest digits that read back as the same double
  (\<open>73786976294838210000\<close> for \<open>2^66\<close>), in exponential notation from \<open>1e21\<close> on
  (\<open>1e+21\<close>).
\<close>

definition Number_toString :: "env \<Rightarrow> int \<Rightarrow> string" where
  "Number_toString e i = (if \<bar>i\<bar> < 2 ^ 53 then decimal i else shortest_digits e i)"

text \<open>
  The unique index \<open>{venue_id: 1, reservation_date: 1}\<close> of \<open>bookingSchema\<close>: a write
  is refused when another document holds the same pair.
\<close>

definition index_taken :: "booking list \<Rightarrow> oid option \<Rightarrow> oid \<Rightarrow> int \<Rightarrow> bool" where
  "index_taken bs self v d \<longleftrightarrow>
     (\<exists>b \<in> set bs. Some (booking_oid b) \<noteq> self \<and> venue_id b = v \<and> reservation_date b = d)"

text \<open>
  \<open>Booking.create(doc)\<close>: the reservation date is cast from the string of the body, as
  \<open>new Date\<close> reads it.
\<close>

definition booking_of_body :: "env \<Rightarrow> oid \<Rightarrow> booking_body \<Rightarrow> booking option" where
  "booking_of_body e i b =
     do {
       v \<leftarrow> bk_venue_id b;
       d \<leftarrow> new_Date e (bk_reservation_date b);
       g \<leftarrow> bk_guest_count b;
       ph \<leftarrow> bk_client_phone b;
       u \<leftarrow> bk_user_id b;
       Some \<lparr> booking_oid = i, venue_id = v, reservation_date = d, guest_count = g,
              client_phone = ph, user_id = u,
              booking_status = (case bk_status b of None \<Rightarrow> ''endi bo'ladigan'' | Some s \<Rightarrow> s) \<rparr>
     }"

definition bookingSchema_valid :: "booking \<Rightarrow> bool" where
  "bookingSchema_valid b \<longleftrightarrow>
     1 \<le> guest_count b \<and> client_phone b \<noteq> [] \<and> booking_status b \<in> set booking_statuses"

definition Booking_create :: "env \<Rightarrow> store \<Rightarrow> booking_body \<Rightarrow> exn + (booking \<times> store)" where
  "Booking_create e st body =
     (case booking_of_body e (next_oid st) body of
        None \<Rightarrow> Inl ValidationError
      | Some b \<Rightarrow>
          if \<not> bookingSchema_valid b then Inl ValidationError
          else if index_taken (bookings st) None (venue_id b) (reservation_date b) then Inl DuplicateKey
          else Inr (b, st\<lparr>bookings := bookings st @ [b], next_oid := Suc (next_oid st)\<rparr>))"

text \<open>\<open>exports.createBooking\<close> (POST /api/bookings).\<close>

definition createBooking ::
  "env \<Rightarrow> validation_error list \<Rightarrow> store \<Rightarrow> user \<Rightarrow> booking_body \<Rightarrow>
     booking response \<times> store" where
  "createBooking e errors st req_user body =
     (if errors \<noteq> [] then (Errors 400 errors, st)
      else case Venue_findById st (bk_venue_id body) of
        None \<Rightarrow> (AppError ''Venue not found'' 404, st)
      | Some venue \<Rightarrow>
          if status venue \<noteq> ''tasdiqlangan''
          then (AppError ''Venue is not approved for bookings'' 400, st)
          else if (case bk_guest_count body of None \<Rightarrow> False | Some g \<Rightarrow> g > capacity venue)
          then (AppError (''Guest count exceeds venue capacity of '' @
                          Number_toString e (capacity venue)) 400, st)
          else
            (case new_Date e (bk_reservation_date body) of
               None \<Rightarrow> (Thrown CastError, st)
             | Some d \<Rightarrow>
                 (case find (\<lambda>b. Some (venue_id b) = bk_venue_id body \<and> reservation_date b = d) (bookings st) of
                    Some existingBooking \<Rightarrow> (AppError ''Venue is already booked for this date'' 400, st)
                  | None \<Rightarrow>
                      (case Booking_create e st
                              (body\<lparr>bk_user_id := Some (user_oid req_user),
                                    bk_status := Some ''endi bo'ladigan''\<rparr>) of
                         Inl error \<Rightarrow> (Thrown error, st)
                       | Inr (booking, st') \<Rightarrow> (Json 201 booking, st')))))"

text \<open>
  \<open>Booking.findByIdAndUpdate(id, update, {new: true, runValidators: true})\<close>: the
  update sets the fields it carries; a date that does not parse is a cast error, the
  update validators check the fields that are set, and the unique index refuses a pair
  that another booking holds.
\<close>

definition booking_set :: "env \<Rightarrow> booking_body \<Rightarrow> booking \<Rightarrow> booking" where
  "booking_set e upd b =
     b\<lparr> venue_id := (case bk_venue_id upd of None \<Rightarrow> venue_id b | Some x \<Rightarrow> x),
        reservation_date :=
          (case new_Date e (bk_reservation_date upd) of None \<Rightarrow> reservation_date b | Some x \<Rightarrow> x),
        guest_count := (case bk_guest_count upd of None \<Rightarrow> guest_count b | Some x \<Rightarrow> x),
        client_phone := (case bk_client_phone upd of None \<Rightarrow> client_phone b | Some x \<Rightarrow> x),
        user_id := (case bk_user_id upd of None \<Rightarrow> user_id b | Some x \<Rightarrow> x),
        booking_status := (case bk_status upd of None \<Rightarrow> booking_status b | Some x \<Rightarrow> x) \<rparr>"

definition booking_update_valid :: "booking_body \<Rightarrow> bool" where
  "booking_update_valid upd \<longleftrightarrow>
     (case bk_guest_count upd of None \<Rightarrow> True | Some x \<Rightarrow> 1 \<le> x) \<and>
     (case bk_client_phone upd of None \<Rightarrow> True | Some x \<Rightarrow> x \<noteq> []) \<and>
     (case bk_status upd of None \<Rightarrow> True | Some x \<Rightarrow> x \<in> set booking_statuses)"

definition Booking_findByIdAndUpdate ::
  "env \<Rightarrow> store \<Rightarrow> oid \<Rightarrow> booking_body \<Rightarrow> exn + (booking option \<times> store)" where
  "Booking_findByIdAndUpdate e st i upd =
     (if bk_reservation_date upd \<noteq> None \<and> new_Date e (bk_reservation_date upd) = None
      then Inl CastError
      else if \<not> booking_update_valid upd then Inl ValidationError
      else case Booking_findById st (Some i) of
        None \<Rightarrow> Inr (None, st)
      | Some b \<Rightarrow>
          let b' = booking_set e upd b in
          if index_taken (bookings st) (Some (booking_oid b)) (venue_id b') (reservation_date b')
          then Inl DuplicateKey
          else Inr (Some b',
                    st\<lparr>bookings := update_first (\<lambda>b. booking_oid b = i) (booking_set e upd) (bookings st)\<rparr>))"

text \<open>A number of the body is truthy when it is there and is not zero.\<close>

definition truthy_number :: "int option \<Rightarrow> bool" where
  "truthy_number x = (case x of None \<Rightarrow> False | Some n \<Rightarrow> n \<noteq> 0)"

text \<open>
  The two checks of \<open>updateBooking\<close>, each with the reply that ends the request when
  the check fails. A string of the body is truthy when it is not empty.

  \<^item> \<open>if (req.body.reservation_date && req.body.reservation_date !==
    booking.reservation_date.toISOString())\<close>: another booking of the same venue on the
    new date is looked for; a date that does not parse is a cast error of the query.
  \<^item> \<open>if (req.body.guest_count)\<close>: the venue of the stored booking is fetched again and
    its capacity is compared; reading \<open>venue.capacity\<close> of a venue that is gone is a
    \<open>TypeError\<close>.
\<close>

definition reservation_date_check ::
  "env \<Rightarrow> store \<Rightarrow> booking \<Rightarrow> booking_body \<Rightarrow> 'a response option" where
  "reservation_date_check e st booking body =
     (if notEmpty (bk_reservation_date body) \<and>
         bk_reservation_date body \<noteq> Some (toISOString e (reservation_date booking))
      then (case new_Date e (bk_reservation_date body) of
              None \<Rightarrow> Some (Thrown CastError)
            | Some d \<Rightarrow>
                (case find (\<lambda>b. venue_id b = venue_id booking \<and> reservation_date b = d \<and>
                                 booking_oid b \<noteq> booking_oid booking) (bookings st) of
                   Some existingBooking \<Rightarrow> Some (AppError ''Venue is already booked for this date'' 400)
                 | None \<Rightarrow> None))
      else None)"

definition guest_count_check ::
  "env \<Rightarrow> store \<Rightarrow> booking \<Rightarrow> booking_body \<Rightarrow> 'a response option" where
  "guest_count_check e st booking body =
     (if truthy_number (bk_guest_count body)
      then (case Venue_findById st (Some (venue_id booking)) of
              None \<Rightarrow> Some (Thrown TypeError)
            | Some venue \<Rightarrow>
                if (case bk_guest_count body of None \<Rightarrow> False | Some g \<Rightarrow> g > capacity venue)
                then Some (AppError (''Guest count exceeds venue capacity of '' @
                                     Number_toString e (capacity venue)) 400)
                else None)
      else None)"

text \<open>\<open>exports.updateBooking\<close> (PUT /api/bookings/:id).\<close>

definition updateBooking ::
  "env \<Rightarrow> validation_error list \<Rightarrow> store \<Rightarrow> user \<Rightarrow> oid \<Rightarrow> booking_body \<Rightarrow>
     booking option response \<times> store" where
  "updateBooking e errors st req_user i body =
     (if errors \<noteq> [] then (Errors 400 errors, st)
      else case Booking_findById st (Some i) of
        None \<Rightarrow> (AppError ''Booking not found'' 404, st)
      | Some booking \<Rightarrow>
          if user_id booking \<noteq> user_oid req_user \<and> role req_user \<noteq> ''admin''
          then (AppError ''Not authorized to update this booking'' 403, st)
          else
            (case reservation_date_check e st booking body of
               Some r \<Rightarrow> (r, st)
             | None \<Rightarrow>
                 (case guest_count_check e st booking body of
                    Some r \<Rightarrow> (r, st)
                  | None \<Rightarrow>
                      (case Booking_findByIdAndUpdate e st i body of
                         Inl error \<Rightarrow> (Thrown error, st)
                       | Inr (booking', st') \<Rightarrow> (Json 200 booking', st')))))"

text \<open>The route: \<open>router.put('/:id', protect, updateBooking)\<close>; it mounts no validator.\<close>

definition put_booking ::
  "env \<Rightarrow> store \<Rightarrow> string option \<Rightarrow> oid \<Rightarrow> booking_body \<Rightarrow> booking option response \<times> store" where
  "put_booking e st token i body =
     (case protect e st token of
        Inl r \<Rightarrow> (r, st)
      | Inr req_user \<Rightarrow> updateBooking e [] st req_user i body)"

definition no_booking_fields :: booking_body where
  "no_booking_fields =
     \<lparr> bk_venue_id = None, bk_reservation_date = None, bk_guest_count = None,
       bk_client_phone = None, bk_user_id = None, bk_status = None \<rparr>"

text \<open>
  \<open>exports.changeBookingStatus\<close> (PUT /api/bookings/:id/status). The owner of the venue
  is read only when the user is not an admin, so a missing venue is a \<open>TypeError\<close> only
  then.
\<close>

definition changeBookingStatus ::
  "env \<Rightarrow> validation_error list \<Rightarrow> store \<Rightarrow> user \<Rightarrow> oid \<Rightarrow> booking_body \<Rightarrow>
     booking option response \<times> store" where
  "changeBookingStatus e errors st req_user i body =
     (if errors \<noteq> [] then (Errors 400 errors, st)
      else case Booking_findById st (Some i) of
        None \<Rightarrow> (AppError ''Booking not found'' 404, st)
      | Some booking \<Rightarrow>
          (case (if role req_user \<noteq> ''admin''
                 then (case Venue_findById st (Some (venue_id booking)) of
                         None \<Rightarrow> Some (Thrown TypeError)
                       | Some venue \<Rightarrow>
                           if owner_id venue \<noteq> user_oid req_user
                           then Some (AppError ''Not authorized to change booking status'' 403)
                           else None)
                 else None) of
             Some r \<Rightarrow> (r, st)
           | None \<Rightarrow>
               (case Booking_findByIdAndUpdate e st i (no_booking_fields\<lparr>bk_status := bk_status body\<rparr>) of
                  Inl error \<Rightarrow> (Thrown error, st)
                | Inr (booking', st') \<Rightarrow> (Json 200 booking', st'))))"

text \<open>\<open>exports.deleteBooking\<close> (DELETE /api/bookings/:id); the route is protected.\<close>

definition deleteBooking :: "store \<Rightarrow> user \<Rightarrow> oid \<Rightarrow> unit response \<times> store" where
  "deleteBooking st req_user i =
     (case Booking_findById st (Some i) of
        None \<Rightarrow> (AppError ''Booking not found'' 404, st)
      | Some booking \<Rightarrow>
          if user_id booking \<noteq> user_oid req_user \<and> role req_user \<noteq> ''admin''
          then (AppError ''Not authorized to delete this booking'' 403, st)
          else (Json 200 (), st\<lparr>bookings := remove1 booking (bookings st)\<rparr>))"

text \<open>
  The routes: \<open>router.post('/', protect, validateBooking, createBooking)\<close> and
  \<open>router.put('/:id/status', protect, validateBookingStatus, changeBookingStatus)\<close>.
\<close>

definition post_booking ::
  "env \<Rightarrow> store \<Rightarrow> string option \<Rightarrow> booking_body \<Rightarrow> booking response \<times> store" where
  "post_booking e st token body =
     (case protect e st token of
        Inl r \<Rightarrow> (r, st)
      | Inr req_user \<Rightarrow> createBooking e (validateBooking e body) st req_user body)"

definition put_booking_status ::
  "env \<Rightarrow> store \<Rightarrow> string option \<Rightarrow> oid \<Rightarrow> booking_body \<Rightarrow> booking option response \<times> store" where
  "put_booking_status e st token i body =
     (case protect e st token of
        Inl r \<Rightarrow> (r, st)
      | Inr req_user \<Rightarrow> changeBookingStatus e (validateBookingStatus body) st req_user i body)"

section \<open>Users and authentication\<close>

record user_body =
  ub_firstname :: "string option"
  ub_lastname :: "string option"
  ub_username :: "string option"
  ub_password :: "string option"
  ub_role :: "string option"

definition roles :: "string list" where
  "roles = [''admin'', ''owner'', ''user'']"

definition validateUser :: "user_body \<Rightarrow> validation_error list" where
  "validateUser b =
     check (notEmpty (ub_firstname b)) ''firstname'' ''First name is required'' @
     check (notEmpty (ub_lastname b)) ''lastname'' ''Last name is required'' @
     check (notEmpty (ub_username b)) ''username'' ''Username is required'' @
     check (case ub_password b of None \<Rightarrow> False | Some p \<Rightarrow> 6 \<le> length p)
       ''password'' ''Password must be at least 6 characters'' @
     check (case ub_role b of None \<Rightarrow> True | Some r \<Rightarrow> r \<in> set roles)
       ''role'' ''Role must be admin, owner, or user''"

text \<open>
  A login body: the validators of the login route are \<open>notEmpty()\<close> alone, which a JSON
  number passes as well as a string that is not empty, so the password is either.
\<close>

datatype body_value = Text string | Number int

record login_body =
  lb_username :: "string option"
  lb_password :: "body_value option"

definition notEmpty_value :: "body_value option \<Rightarrow> bool" where
  "notEmpty_value x = (case x of None \<Rightarrow> False | Some (Text s) \<Rightarrow> s \<noteq> [] | Some (Number n) \<Rightarrow> True)"

definition validateLogin :: "login_body \<Rightarrow> validation_error list" where
  "validateLogin b =
     check (notEmpty (lb_username b)) ''username'' ''Username is required'' @
     check (notEmpty_value (lb_password b)) ''password'' ''Password is required''"

text \<open>\<open>User.findOne({username})\<close>: the filter is cast through the setter \<open>trim\<close>.\<close>

definition User_findOne_username :: "env \<Rightarrow> store \<Rightarrow> string option \<Rightarrow> user option" where
  "User_findOne_username e st n =
     (case n of None \<Rightarrow> None | Some x \<Rightarrow> find (\<lambda>u. username u = trim e x) (users st))"

text \<open>
  The validators of \<open>userSchema\<close> on the paths that a document has modified, and the
  hook \<open>userSchema.pre('save')\<close>, which hashes the password when that path is modified.
  Validation runs before the hook, on the plain password, and after the setters, on
  the trimmed names.
\<close>

definition userSchema_valid :: "string list \<Rightarrow> user \<Rightarrow> bool" where
  "userSchema_valid modified u \<longleftrightarrow>
     (''firstname'' \<in> set modified \<longrightarrow> firstname u \<noteq> []) \<and>
     (''lastname'' \<in> set modified \<longrightarrow> lastname u \<noteq> []) \<and>
     (''username'' \<in> set modified \<longrightarrow> username u \<noteq> []) \<and>
     (''password'' \<in> set modified \<longrightarrow> 6 \<le> length (password u)) \<and>
     (''role'' \<in> set modified \<longrightarrow> role u \<in> set roles)"

definition pre_save :: "env \<Rightarrow> string list \<Rightarrow> user \<Rightarrow> user" where
  "pre_save e modified u =
     (if ''password'' \<notin> set modified then u
      else u\<lparr>password := bcrypt_hash e (password u)\<rparr>)"

definition username_taken :: "user list \<Rightarrow> oid \<Rightarrow> string \<Rightarrow> bool" where
  "username_taken us self n \<longleftrightarrow> (\<exists>u \<in> set us. user_oid u \<noteq> self \<and> username u = n)"

text \<open>
  \<open>User.create(doc)\<close>: \<open>firstname\<close>, \<open>lastname\<close> and \<open>username\<close> go through \<open>trim\<close>,
  and every path of a new document counts as modified.
\<close>

definition all_user_paths :: "string list" where
  "all_user_paths = [''firstname'', ''lastname'', ''username'', ''password'', ''role'']"

definition user_of_body :: "env \<Rightarrow> oid \<Rightarrow> user_body \<Rightarrow> user option" where
  "user_of_body e i b =
     do {
       f \<leftarrow> ub_firstname b;
       l \<leftarrow> ub_lastname b;
       n \<leftarrow> ub_username b;
       p \<leftarrow> ub_password b;
       Some \<lparr> user_oid = i, firstname = trim e f, lastname = trim e l, username = trim e n,
              password = p,
              role = (case ub_role b of None \<Rightarrow> ''user'' | Some r \<Rightarrow> r) \<rparr>
     }"

definition User_create :: "env \<Rightarrow> store \<Rightarrow> user_body \<Rightarrow> exn + (user \<times> store)" where
  "User_create e st b =
     (case user_of_body e (next_oid st) b of
        None \<Rightarrow> Inl ValidationError
      | Some u \<Rightarrow>
          if \<not> userSchema_valid all_user_paths u then Inl ValidationError
          else if username_taken (users st) (user_oid u) (username u) then Inl DuplicateKey
          else Inr (pre_save e all_user_paths u,
                    st\<lparr>users := users st @ [pre_save e all_user_paths u],
                       next_oid := Suc (next_oid st)\<rparr>))"

text \<open>\<open>user.save()\<close> of a loaded document with the given modified paths.\<close>

definition User_save :: "env \<Rightarrow> store \<Rightarrow> string list \<Rightarrow> user \<Rightarrow> exn + (user \<times> store)" where
  "User_save e st modified u =
     (if \<not> userSchema_valid modified u then Inl ValidationError
      else if username_taken (users st) (user_oid u) (username u) then Inl DuplicateKey
      else Inr (pre_save e modified u,
                st\<lparr>users := update_first (\<lambda>x. user_oid x = user_oid u)
                                         (\<lambda>x. pre_save e modified u) (users st)\<rparr>))"

record auth_data =
  data_id :: oid
  data_firstname :: string
  data_lastname :: string
  data_username :: string
  data_role :: string
  data_token :: string

definition auth_json :: "env \<Rightarrow> user \<Rightarrow> auth_data" where
  "auth_json e u =
     \<lparr> data_id = user_oid u, data_firstname = firstname u, data_lastname = lastname u,
       data_username = username u, data_role = role u, data_token = jwt_sign e (user_oid u) \<rparr>"

text \<open>
  \<open>exports.register\<close> (POST /api/auth/register); \<open>role || 'user'\<close> replaces an absent
  or empty role.
\<close>

definition register ::
  "env \<Rightarrow> validation_error list \<Rightarrow> store \<Rightarrow> user_body \<Rightarrow> auth_data response \<times> store" where
  "register e errors st body =
     (if errors \<noteq> [] then (Errors 400 errors, st)
      else case User_findOne_username e st (ub_username body) of
        Some userExists \<Rightarrow> (AppError ''User already exists'' 400, st)
      | None \<Rightarrow>
          (case User_create e st
                  (body\<lparr>ub_role := (if notEmpty (ub_role body) then ub_role body else Some ''user'')\<rparr>) of
             Inl error \<Rightarrow> (Thrown error, st)
           | Inr (u, st') \<Rightarrow> (Json 201 (auth_json e u), st')))"

text \<open>
  \<open>exports.login\<close> (POST /api/auth/login); \<open>user.matchPassword(password)\<close> is
  \<open>bcrypt.compare(password, this.password)\<close>, which throws \<open>Illegal arguments\<close> when
  the password of the body is not a string; the handler passes the error to \<open>next\<close>.
\<close>

definition login ::
  "env \<Rightarrow> validation_error list \<Rightarrow> store \<Rightarrow> login_body \<Rightarrow> auth_data response \<times> store" where
  "login e errors st body =
     (if errors \<noteq> [] then (Errors 400 errors, st)
      else case User_findOne_username e st (lb_username body) of
        None \<Rightarrow> (AppError ''Invalid credentials'' 401, st)
      | Some u \<Rightarrow>
          (case lb_password body of
             None \<Rightarrow> (Thrown IllegalArguments, st)
           | Some (Number n) \<Rightarrow> (Thrown IllegalArguments, st)
           | Some (Text p) \<Rightarrow>
               if \<not> bcrypt_compare e p (password u)
               then (AppError ''Invalid credentials'' 401, st)
               else (Json 200 (auth_json e u), st)))"

text \<open>
  The public routes: \<open>router.post('/register', validateUser, register)\<close> and
  \<open>router.post('/login', validateLogin, login)\<close>; neither passes through \<open>protect\<close>.
\<close>

definition post_register :: "env \<Rightarrow> store \<Rightarrow> user_body \<Rightarrow> auth_data response \<times> store" where
  "post_register e st body = register e (validateUser body) st body"

definition post_login :: "env \<Rightarrow> store \<Rightarrow> login_body \<Rightarrow> auth_data response \<times> store" where
  "post_login e st body = login e (validateLogin body) st body"

text \<open>
  \<open>if (x) user.f = x\<close>: a field of the body is assigned when it is truthy, and the
  path then counts as modified. The assignment of a name runs the setter \<open>trim\<close>.
\<close>

definition assign :: "string option \<Rightarrow> (string \<Rightarrow> user \<Rightarrow> user) \<Rightarrow> user \<Rightarrow> user" where
  "assign x f u = (case x of None \<Rightarrow> u | Some v \<Rightarrow> if v \<noteq> [] then f v u else u)"

definition assigned :: "string option \<Rightarrow> string \<Rightarrow> string list" where
  "assigned x path = (if notEmpty x then [path] else [])"

text \<open>
  \<open>exports.updateUser\<close> (PUT /api/users/:id). The handler reads \<open>firstname\<close>,
  \<open>lastname\<close>, \<open>username\<close> and \<open>role\<close> from the body, assigns those that are truthy and
  saves the document.
\<close>

definition updateUser ::
  "env \<Rightarrow> validation_error list \<Rightarrow> store \<Rightarrow> oid \<Rightarrow> user_body \<Rightarrow> user response \<times> store" where
  "updateUser e errors st i body =
     (if errors \<noteq> [] then (Errors 400 errors, st)
      else case User_findById st (Some i) of
        None \<Rightarrow> (AppError ''User not found'' 404, st)
      | Some u \<Rightarrow>
          let u1 = assign (ub_firstname body) (\<lambda>x u. u\<lparr>firstname := trim e x\<rparr>) u;
              u2 = assign (ub_lastname body) (\<lambda>x u. u\<lparr>lastname := trim e x\<rparr>) u1
          in
            if notEmpty (ub_username body) \<and>
               (case User_findOne_username e st (ub_username body) of
                  None \<Rightarrow> False
                | Some existingUser \<Rightarrow> user_oid existingUser \<noteq> user_oid u)
            then (AppError ''Username is already taken'' 400, st)
            else
              let u3 = assign (ub_username body) (\<lambda>x u. u\<lparr>username := trim e x\<rparr>) u2;
                  u4 = assign (ub_role body) (\<lambda>x u. u\<lparr>role := x\<rparr>) u3;
                  modified =
                    assigned (ub_firstname body) ''firstname'' @
                    assigned (ub_lastname body) ''lastname'' @
                    assigned (ub_username body) ''username'' @
                    assigned (ub_role body) ''role''
              in (case User_save e st modified u4 of
                    Inl error \<Rightarrow> (Thrown error, st)
                  | Inr (updatedUser, st') \<Rightarrow> (Json 200 updatedUser, st')))"

text \<open>The route: \<open>router.put('/:id', protect, authorize('admin'), updateUser)\<close>.\<close>

definition put_user ::
  "env \<Rightarrow> store \<Rightarrow> string option \<Rightarrow> oid \<Rightarrow> user_body \<Rightarrow> user response \<times> store" where
  "put_user e st token i body =
     (case protect e st token of
        Inl r \<Rightarrow> (r, st)
      | Inr req_user \<Rightarrow>
          (case authorize [''admin''] req_user of
             Some r \<Rightarrow> (r, st)
           | None \<Rightarrow> updateUser e [] st i body))"

section \<open>A worked example\<close>

text \<open>
  One instance of the library primitives and one store, on which the theorems below are
  run: an admin, two owners and a user; a pending and an approved venue of the first
  owner, both with capacity 100; one upcoming booking of the user at the approved venue.
\<close>

definition strip_spaces :: "string \<Rightarrow> string" where
  "strip_spaces s =
     rev (dropWhile (\<lambda>c. c = CHR '' '') (rev (dropWhile (\<lambda>c. c = CHR '' '') s)))"

definition example_env :: env where
  "example_env =
     \<lparr> bcrypt_hash = (\<lambda>p. ''$2a$10$'' @ p),
       bcrypt_compare = (\<lambda>p h. h = ''$2a$10$'' @ p),
       parse_date = (\<lambda>s. if s = ''2025-06-01'' then Some 1748736000000
                          else if s = ''2025-06-02'' then Some 1748822400000 else None),
       toISOString = (\<lambda>d. if d = 1748736000000 then ''2025-06-01T00:00:00.000Z''
                           else if d = 1748822400000 then ''2025-06-02T00:00:00.000Z'' else []),
       isISO8601 = (\<lambda>s. s = ''2025-06-01'' \<or> s = ''2025-06-02''),
       jwt_sign = (\<lambda>i. ''jwt-'' @ digits i),
       jwt_verify = (\<lambda>t. if t = ''jwt-1'' then Some 1 else if t = ''jwt-2'' then Some 2
                          else if t = ''jwt-3'' then Some 3 else if t = ''jwt-4'' then Some 4
                          else None),
       trim = strip_spaces,
       cast_ObjectId = (\<lambda>s. if s = ''65f1a2b3c4d5e6f708090a07'' then Some 7 else None),
       shortest_digits = (\<lambda>i. if i = 10 ^ 21 then ''1e+21'' else []),
       now = 1750000000000 \<rparr>"

definition admin1 :: user where
  "admin1 = \<lparr> user_oid = 1, firstname = ''Aziz'', lastname = ''Karimov'', username = ''aziz'',
              password = ''$2a$10$secret1'', role = ''admin'' \<rparr>"

definition owner2 :: user where
  "owner2 = \<lparr> user_oid = 2, firstname = ''Bobur'', lastname = ''Aliev'', username = ''bobur'',
              password = ''$2a$10$secret2'', role = ''owner'' \<rparr>"

definition owner3 :: user where
  "owner3 = \<lparr> user_oid = 3, firstname = ''Dilnoza'', lastname = ''Saidova'', username = ''dilnoza'',
              password = ''$2a$10$secret3'', role = ''owner'' \<rparr>"

definition user4 :: user where
  "user4 = \<lparr> user_oid = 4, firstname = ''Eldor'', lastname = ''Umarov'', username = ''eldor'',
             password = ''$2a$10$secret4'', role = ''user'' \<rparr>"

definition venue10 :: venue where
  "venue10 = \<lparr> venue_oid = 10, name = ''Navruz'', district_id = 7, address = ''Chilanzar 5'',
               capacity = 100, price_seat = 12, phone_number = ''+998901112233'',
               status = ''tasdiqlanmagan'', owner_id = 2, createdAt = 1740000000000,
               updatedAt = 1740000000000 \<rparr>"

definition venue11 :: venue where
  "venue11 = \<lparr> venue_oid = 11, name = ''Bahor'', district_id = 7, address = ''Chilanzar 9'',
               capacity = 100, price_seat = 15, phone_number = ''+998901112244'',
               status = ''tasdiqlangan'', owner_id = 2, createdAt = 1740000000000,
               updatedAt = 1745000000000 \<rparr>"

definition booking20 :: booking where
  "booking20 = \<lparr> booking_oid = 20, venue_id = 11, reservation_date = 1748736000000,
                 guest_count = 50, client_phone = ''+998935556677'', user_id = 4,
                 booking_status = ''endi bo'ladigan'' \<rparr>"

definition example_store :: store where
  "example_store =
     \<lparr> users = [admin1, owner2, owner3, user4], venues = [venue10, venue11], images = [],
       bookings = [booking20], next_oid = 21 \<rparr>"

definition booking_request :: "oid \<Rightarrow> string \<Rightarrow> int \<Rightarrow> booking_body" where
  "booking_request v d g =
     no_booking_fields\<lparr>bk_venue_id := Some v, bk_reservation_date := Some d,
                        bk_guest_count := Some g, bk_client_phone := Some ''+998935556677''\<rparr>"

definition guests_patch :: "int \<Rightarrow> booking_body" where
  "guests_patch g = no_booking_fields\<lparr>bk_guest_count := Some g\<rparr>"

definition status_patch :: "string \<Rightarrow> booking_body" where
  "status_patch s = no_booking_fields\<lparr>bk_status := Some s\<rparr>"

definition venue_request :: "string option \<Rightarrow> venue_body" where
  "venue_request s =
     \<lparr> body_name = Some ''Orzu'', body_district_id = Some ''65f1a2b3c4d5e6f708090a07'',
       body_address = Some ''Yunusabad 1'',
       body_capacity = Some 200, body_price_seat = Some 20,
       body_phone_number = Some ''+998901112255'', body_status = s, body_owner_id = None \<rparr>"

definition no_capacity_request :: venue_body where
  "no_capacity_request = (venue_request None)\<lparr>body_capacity := Some 0\<rparr>"

definition venue21 :: venue where
  "venue21 =
     \<lparr> venue_oid = 21, name = ''Orzu'', district_id = 7, address = ''Yunusabad 1'', capacity = 200,
       price_seat = 20, phone_number = ''+998901112255'', status = ''tasdiqlangan'', owner_id = 2,
       createdAt = 1750000000000, updatedAt = 1750000000000 \<rparr>"

definition credentials :: "string \<Rightarrow> body_value \<Rightarrow> login_body" where
  "credentials n p = \<lparr> lb_username = Some n, lb_password = Some p \<rparr>"

definition later :: "env \<Rightarrow> env" where
  "later e = e\<lparr>now := now e + 60000\<rparr>"

definition register_request :: "string \<Rightarrow> string option \<Rightarrow> user_body" where
  "register_request n r =
     \<lparr> ub_firstname = Some ''Farhod'', ub_lastname = Some ''Nazarov'', ub_username = Some n,
       ub_password = Some ''secret5'', ub_role = r \<rparr>"

definition password_patch :: "string \<Rightarrow> user_body" where
  "password_patch p =
     \<lparr> ub_firstname = None, ub_lastname = None, ub_username = None, ub_password = Some p,
       ub_role = None \<rparr>"

section \<open>Invariants\<close>

text \<open>At most one booking for a venue and a reservation date.\<close>

definition one_booking_per_date :: "booking list \<Rightarrow> bool" where
  "one_booking_per_date bs = distinct (map (\<lambda>b. (venue_id b, reservation_date b)) bs)"

text \<open>
  The bookings of a store are well formed when their ids are distinct and below the next
  id of the store, and no two of them are for the same venue and date.
\<close>

definition bookings_ok :: "store \<Rightarrow> bool" where
  "bookings_ok st \<longleftrightarrow>
     distinct (map booking_oid (bookings st)) \<and> one_booking_per_date (bookings st) \<and>
     (\<forall>b \<in> set (bookings st). booking_oid b < next_oid st)"

text \<open>The store without the \<open>updatedAt\<close> stamps of its venues.\<close>

definition forget_updatedAt :: "store \<Rightarrow> store" where
  "forget_updatedAt st = st\<lparr>venues := map (\<lambda>v. v\<lparr>updatedAt := 0\<rparr>) (venues st)\<rparr>"

section \<open>Store and middleware lemmas\<close>

lemma find_update_first:
  "(\<And>x. p x \<Longrightarrow> p (f x)) \<Longrightarrow> find p (update_first p f xs) = map_option f (find p xs)"
  by (induction xs) auto

lemma update_first_twice:
  "(\<And>x. p x \<Longrightarrow> p (g x)) \<Longrightarrow> (\<And>x. f (g x) = f x) \<Longrightarrow>
     update_first p f (update_first p g xs) = update_first p f xs"
  by (induction xs) auto

lemma map_update_first_cong:
  "(\<And>x. h (f x) = h (g x)) \<Longrightarrow> map h (update_first p f xs) = map h (update_first p g xs)"
  by (induction xs) auto

lemma protect_now: "protect (e\<lparr>now := t\<rparr>) st token = protect e st token"
  by (simp add: protect_def split: option.splits)

lemma protect_users:
  assumes "users st' = users st"
  shows "protect e st' token = protect e st token"
proof -
  have "User_findById st' = User_findById st"
    using assms by (intro ext) (simp add: User_findById_def split: option.splits)
  then show ?thesis by (simp add: protect_def split: option.splits)
qed

lemma protect_example:
  "protect example_env example_store (Some ''jwt-1'') = Inr admin1"
  "protect example_env example_store (Some ''jwt-2'') = Inr owner2"
  "protect example_env example_store (Some ''jwt-3'') = Inr owner3"
  "protect example_env example_store (Some ''jwt-4'') = Inr user4"
  by (simp_all add: protect_def example_env_def example_store_def User_findById_def
        admin1_def owner2_def owner3_def user4_def)

lemma Venue_findById_example:
  "Venue_findById example_store (Some 10) = Some venue10"
  "Venue_findById example_store (Some 11) = Some venue11"
  by (simp_all add: Venue_findById_def example_store_def venue10_def venue11_def)

section \<open>Approval of a venue\<close>

lemma approveVenue_found:
  assumes "Venue_findById st (Some i) = Some v"
  shows "approveVenue e st i =
           (Json 200 (Some (v\<lparr>status := ''tasdiqlangan'', updatedAt := now e\<rparr>)),
            st\<lparr>venues := update_first (\<lambda>x. venue_oid x = i)
                             (\<lambda>x. x\<lparr>status := ''tasdiqlangan'', updatedAt := now e\<rparr>) (venues st)\<rparr>)"
proof -
  have set: "venue_set e (no_venue_fields\<lparr>body_status := Some ''tasdiqlangan''\<rparr>) =
               (\<lambda>x. x\<lparr>status := ''tasdiqlangan'', updatedAt := now e\<rparr>)"
    by (rule ext) (simp add: venue_set_def no_venue_fields_def cast_or_def)
  have casts: "venue_update_casts e (no_venue_fields\<lparr>body_status := Some ''tasdiqlangan''\<rparr>)"
    by (simp add: venue_update_casts_def no_venue_fields_def)
  have valid: "venue_update_valid e (no_venue_fields\<lparr>body_status := Some ''tasdiqlangan''\<rparr>)"
    by (simp add: venue_update_valid_def no_venue_fields_def venue_statuses_def)
  show ?thesis
    using assms by (simp add: approveVenue_def Venue_findByIdAndUpdate_def set casts valid)
qed

lemma put_venue_approve_admin:
  assumes "protect e st token = (Inr u :: venue option response + user)"
    and "role u = ''admin''"
    and "Venue_findById st (Some i) = Some v"
  shows "put_venue_approve e st token i =
           (Json 200 (Some (v\<lparr>status := ''tasdiqlangan'', updatedAt := now e\<rparr>)),
            st\<lparr>venues := update_first (\<lambda>x. venue_oid x = i)
                             (\<lambda>x. x\<lparr>status := ''tasdiqlangan'', updatedAt := now e\<rparr>) (venues st)\<rparr>)"
proof -
  have "authorize [''admin''] u = (None :: venue option response option)"
    using assms(2) by (simp add: authorize_def)
  then show ?thesis
    using assms(1) approveVenue_found [OF assms(3)] by (simp add: put_venue_approve_def)
qed

text \<open>
  C8, as the code has it. When an admin calls the approve route on a venue that exists,
  whatever the status of the venue is, the answer is 200 with the venue in status
  \<open>tasdiqlangan\<close>, and the store holds the venue with that status and the stamp
  \<open>updatedAt\<close> of the call and is otherwise as before. A second call, at a time \<open>t\<close>,
  leaves the store that one call at \<open>t\<close> leaves: it is the store after the first call
  in everything but the \<open>updatedAt\<close> stamp of the venue, which the second call rewrites.
\<close>

theorem approveVenue_twice:
  assumes "protect e st token = (Inr u :: venue option response + user)"
    and "role u = ''admin''"
    and "Venue_findById st (Some i) = Some v"
  shows "put_venue_approve e st token i =
           (Json 200 (Some (v\<lparr>status := ''tasdiqlangan'', updatedAt := now e\<rparr>)),
            st\<lparr>venues := update_first (\<lambda>x. venue_oid x = i)
                             (\<lambda>x. x\<lparr>status := ''tasdiqlangan'', updatedAt := now e\<rparr>) (venues st)\<rparr>) \<and>
         Venue_findById (snd (put_venue_approve e st token i)) (Some i) =
           Some (v\<lparr>status := ''tasdiqlangan'', updatedAt := now e\<rparr>) \<and>
         snd (put_venue_approve (e\<lparr>now := t\<rparr>) (snd (put_venue_approve e st token i)) token i) =
           snd (put_venue_approve (e\<lparr>now := t\<rparr>) st token i) \<and>
         forget_updatedAt
           (snd (put_venue_approve (e\<lparr>now := t\<rparr>) (snd (put_venue_approve e st token i)) token i)) =
           forget_updatedAt (snd (put_venue_approve e st token i))"
proof -
  let ?f = "\<lambda>t (x::venue). x\<lparr>status := ''tasdiqlangan'', updatedAt := t\<rparr>"
  let ?p = "\<lambda>x. venue_oid x = i"
  let ?st' = "st\<lparr>venues := update_first ?p (?f (now e)) (venues st)\<rparr>"
  have first: "put_venue_approve e st token i = (Json 200 (Some (?f (now e) v)), ?st')"
    by (rule put_venue_approve_admin [OF assms])
  have found': "Venue_findById ?st' (Some i) = Some (?f (now e) v)"
    using assms(3) by (simp add: Venue_findById_def find_update_first)
  have prot: "protect (e\<lparr>now := t\<rparr>) st token = (Inr u :: venue option response + user)"
    using assms(1) by (simp add: protect_now)
  have "protect (e\<lparr>now := t\<rparr>) ?st' token =
          (protect (e\<lparr>now := t\<rparr>) st token :: venue option response + user)"
    by (rule protect_users) simp
  then have prot': "protect (e\<lparr>now := t\<rparr>) ?st' token = (Inr u :: venue option response + user)"
    using prot by simp
  have once: "snd (put_venue_approve (e\<lparr>now := t\<rparr>) st token i) =
      st\<lparr>venues := update_first ?p (?f t) (venues st)\<rparr>"
    using put_venue_approve_admin [OF prot assms(2,3)] by simp
  have twice: "snd (put_venue_approve (e\<lparr>now := t\<rparr>) ?st' token i) =
      ?st'\<lparr>venues := update_first ?p (?f t) (venues ?st')\<rparr>"
    using put_venue_approve_admin [OF prot' assms(2) found'] by simp
  have merge: "update_first ?p (?f t) (venues ?st') = update_first ?p (?f t) (venues st)"
    by (simp add: update_first_twice)
  have same: "map (\<lambda>v. v\<lparr>updatedAt := 0\<rparr>) (update_first ?p (?f t) (venues st)) =
              map (\<lambda>v. v\<lparr>updatedAt := 0\<rparr>) (update_first ?p (?f (now e)) (venues st))"
    by (rule map_update_first_cong) simp
  show ?thesis
    using first found' once twice merge same by (simp add: forget_updatedAt_def)
qed

text \<open>
  The admin approves venue 10 and approves it again a minute later: the two stores differ,
  in the \<open>updatedAt\<close> stamp of venue 10.
\<close>

theorem approveVenue_twice_counterexample:
  "map updatedAt (venues (snd (put_venue_approve example_env example_store (Some ''jwt-1'') 10))) =
     [1750000000000, 1745000000000] \<and>
   map updatedAt (venues (snd (put_venue_approve (later example_env)
      (snd (put_venue_approve example_env example_store (Some ''jwt-1'') 10)) (Some ''jwt-1'') 10))) =
     [1750000060000, 1745000000000] \<and>
   snd (put_venue_approve (later example_env)
      (snd (put_venue_approve example_env example_store (Some ''jwt-1'') 10)) (Some ''jwt-1'') 10) \<noteq>
     snd (put_venue_approve example_env example_store (Some ''jwt-1'') 10)"
proof -
  let ?once = "snd (put_venue_approve example_env example_store (Some ''jwt-1'') 10)"
  let ?twice = "snd (put_venue_approve (later example_env) ?once (Some ''jwt-1'') 10)"
  have a: "role admin1 = ''admin''" by (simp add: admin1_def)
  have n: "now example_env = 1750000000000" "now (later example_env) = 1750000060000"
    by (simp_all add: later_def example_env_def)
  have vs: "venues example_store = [venue10, venue11]" "venue_oid venue10 = 10"
    "updatedAt venue11 = 1745000000000"
    by (simp_all add: example_store_def venue10_def venue11_def)
  have once: "?once = example_store\<lparr>venues :=
      [venue10\<lparr>status := ''tasdiqlangan'', updatedAt := 1750000000000\<rparr>, venue11]\<rparr>"
    using put_venue_approve_admin [OF protect_example(1) a Venue_findById_example(1)]
    by (simp add: n vs)
  have "protect example_env ?once (Some ''jwt-1'') =
          (protect example_env example_store (Some ''jwt-1'') :: venue option response + user)"
    by (rule protect_users) (simp add: once)
  then have p: "protect (later example_env) ?once (Some ''jwt-1'') =
             (Inr admin1 :: venue option response + user)"
    by (simp add: later_def protect_now protect_example)
  have f: "Venue_findById ?once (Some 10) =
             Some (venue10\<lparr>status := ''tasdiqlangan'', updatedAt := 1750000000000\<rparr>)"
    by (simp add: once Venue_findById_def vs)
  have twice: "?twice = example_store\<lparr>venues :=
      [venue10\<lparr>status := ''tasdiqlangan'', updatedAt := 1750000060000\<rparr>, venue11]\<rparr>"
    using put_venue_approve_admin [OF p a f] by (simp add: n vs once)
  have o: "map updatedAt (venues ?once) = [1750000000000, 1745000000000]"
    using once by (simp add: vs)
  have t: "map updatedAt (venues ?twice) = [1750000060000, 1745000000000]"
    using twice by (simp add: vs)
  have "?twice \<noteq> ?once"
  proof
    assume "?twice = ?once"
    then have "map updatedAt (venues ?twice) = map updatedAt (venues ?once)"
      by (rule arg_cong)
    with o t show False by simp
  qed
  with o t show ?thesis by blast
qed

theorem approveVenue_twice_witness:
  "put_venue_approve example_env example_store (Some ''jwt-1'') 10 =
     (Json 200 (Some (venue10\<lparr>status := ''tasdiqlangan'', updatedAt := 1750000000000\<rparr>)),
      example_store\<lparr>venues :=
        [venue10\<lparr>status := ''tasdiqlangan'', updatedAt := 1750000000000\<rparr>, venue11]\<rparr>) \<and>
   forget_updatedAt (snd (put_venue_approve (example_env\<lparr>now := 1750000060000\<rparr>)
          (snd (put_venue_approve example_env example_store (Some ''jwt-1'') 10))
          (Some ''jwt-1'') 10)) =
     forget_updatedAt (snd (put_venue_approve example_env example_store (Some ''jwt-1'') 10))"
proof -
  have a: "role admin1 = ''admin''" by (simp add: admin1_def)
  have n: "now example_env = 1750000000000" by (simp add: example_env_def)
  have u: "update_first (\<lambda>x. venue_oid x = 10)
             (\<lambda>x. x\<lparr>status := ''tasdiqlangan'', updatedAt := 1750000000000\<rparr>)
             (venues example_store) =
           [venue10\<lparr>status := ''tasdiqlangan'', updatedAt := 1750000000000\<rparr>, venue11]"
    by (simp add: example_store_def venue10_def)
  show ?thesis
    using approveVenue_twice [OF protect_example(1) a Venue_findById_example(1),
        of 1750000060000, unfolded n u]
    by blast
qed

section \<open>Creating a booking\<close>

text \<open>
  C5. A createBooking request that names an existing venue whose status is not
  \<open>tasdiqlangan\<close> is answered with status 400, whatever the validation result and the
  rest of the request are, and the store is left as it was.
\<close>

theorem createBooking_unapproved_venue:
  assumes "Venue_findById st (bk_venue_id body) = Some v"
    and "status v \<noteq> ''tasdiqlangan''"
  shows "statusCode (fst (createBooking e errors st u body)) = 400 \<and>
         snd (createBooking e errors st u body) = st"
  using assms by (simp add: createBooking_def)

theorem createBooking_unapproved_venue_witness:
  "statusCode (fst (createBooking example_env [] example_store user4
      (no_booking_fields\<lparr>bk_venue_id := Some 10, bk_reservation_date := Some ''2025-06-01'',
                          bk_guest_count := Some 50, bk_client_phone := Some ''+998935556677''\<rparr>))) = 400 \<and>
   snd (createBooking example_env [] example_store user4
      (no_booking_fields\<lparr>bk_venue_id := Some 10, bk_reservation_date := Some ''2025-06-01'',
                          bk_guest_count := Some 50, bk_client_phone := Some ''+998935556677''\<rparr>)) =
     example_store"
proof -
  have s: "status venue10 \<noteq> ''tasdiqlangan''" by (simp add: venue10_def)
  show ?thesis
    using createBooking_unapproved_venue [of example_store _ venue10, OF _ s] Venue_findById_example(1)
    by (simp add: no_booking_fields_def)
qed

lemma Booking_create_keeps_unique:
  assumes "Booking_create e st body = Inr (b, st')" and "one_booking_per_date (bookings st)"
  shows "one_booking_per_date (bookings st')"
proof -
  from assms(1) have st': "bookings st' = bookings st @ [b]"
    and free: "\<not> index_taken (bookings st) None (venue_id b) (reservation_date b)"
    by (auto simp: Booking_create_def split: option.splits if_splits)
  from free have "(venue_id b, reservation_date b) \<notin>
      set (map (\<lambda>b. (venue_id b, reservation_date b)) (bookings st))"
    by (auto simp: index_taken_def)
  with assms(2) show ?thesis
    by (simp add: one_booking_per_date_def st')
qed

lemma createBooking_store:
  "snd (createBooking e errors st u body) = st \<or>
   (\<exists>b body'. Booking_create e st body' = Inr (b, snd (createBooking e errors st u body)))"
  by (auto simp: createBooking_def split: option.splits sum.splits)

lemma find_existing:
  assumes "b \<in> set bs" and "P b"
  shows "find P bs \<noteq> None"
  using assms by (auto simp: find_None_iff)

lemma set_update_first:
  "set (update_first p f xs) \<subseteq> set xs \<union> f ` {x \<in> set xs. p x}"
  by (induction xs) auto

lemma map_update_first_same:
  "(\<And>x. g (f x) = g x) \<Longrightarrow> map g (update_first p f xs) = map g xs"
  by (induction xs) auto

lemma update_first_distinct_keys:
  assumes "distinct (map oid xs)" and "distinct (map key xs)"
    and "\<forall>x \<in> set xs. \<forall>y \<in> set xs. oid x \<noteq> i \<longrightarrow> oid y = i \<longrightarrow> key x \<noteq> key (f y)"
  shows "distinct (map key (update_first (\<lambda>x. oid x = i) f xs))"
  using assms
proof (induction xs)
  case Nil
  then show ?case by simp
next
  case (Cons x xs)
  show ?case
  proof (cases "oid x = i")
    case True
    have "key (f x) \<notin> key ` set xs"
    proof
      assume "key (f x) \<in> key ` set xs"
      then obtain y where y: "y \<in> set xs" "key y = key (f x)" by auto
      from Cons.prems(1) y(1) True have "oid y \<noteq> i" by (metis distinct.simps(2) imageI list.simps(9) list.set_map)
      with Cons.prems(3) y(1) True have "key y \<noteq> key (f x)" by auto
      with y(2) show False by simp
    qed
    with Cons.prems(2) True show ?thesis by simp
  next
    case False
    have ih: "distinct (map key (update_first (\<lambda>x. oid x = i) f xs))"
      using Cons.prems by (intro Cons.IH) auto
    have "key x \<notin> key ` set (update_first (\<lambda>x. oid x = i) f xs)"
    proof
      assume "key x \<in> key ` set (update_first (\<lambda>x. oid x = i) f xs)"
      then obtain z where z: "z \<in> set (update_first (\<lambda>x. oid x = i) f xs)" "key z = key x"
        by auto
      from z(1) set_update_first [of "\<lambda>x. oid x = i" f xs]
      consider "z \<in> set xs" | y where "y \<in> set xs" "oid y = i" "z = f y" by auto
      then show False
      proof cases
        case 1
        then have "key x \<in> key ` set xs" using z(2) by (metis imageI)
        with Cons.prems(2) show False by simp
      next
        case 2
        with Cons.prems(3) False have "key x \<noteq> key (f y)" by auto
        with 2 z(2) show False by simp
      qed
    qed
    with ih False show ?thesis by simp
  qed
qed

lemma booking_set_oid: "booking_oid (booking_set e upd b) = booking_oid b"
  by (simp add: booking_set_def)

lemma Booking_findByIdAndUpdate_ok:
  assumes "Booking_findByIdAndUpdate e st i upd = Inr (r, st')" and "bookings_ok st"
  shows "bookings_ok st'"
proof (cases "Booking_findById st (Some i)")
  case None
  with assms show ?thesis
    by (auto simp: Booking_findByIdAndUpdate_def split: if_splits)
next
  case (Some b)
  let ?f = "booking_set e upd"
  let ?key = "\<lambda>b. (venue_id b, reservation_date b)"
  from Some have b: "b \<in> set (bookings st)" "booking_oid b = i"
    by (auto simp: Booking_findById_def dest: find_Some_iff [THEN iffD1] simp: in_set_conv_nth)
  from assms(1) Some have st': "st' = st\<lparr>bookings := update_first (\<lambda>b. booking_oid b = i) ?f (bookings st)\<rparr>"
    and free: "\<not> index_taken (bookings st) (Some (booking_oid b)) (venue_id (?f b)) (reservation_date (?f b))"
    by (auto simp: Booking_findByIdAndUpdate_def Let_def split: if_splits)
  from assms(2) have d: "distinct (map booking_oid (bookings st))"
    and k: "distinct (map ?key (bookings st))"
    and n: "\<forall>b \<in> set (bookings st). booking_oid b < next_oid st"
    by (auto simp: bookings_ok_def one_booking_per_date_def)
  have only: "\<And>y. y \<in> set (bookings st) \<Longrightarrow> booking_oid y = i \<Longrightarrow> y = b"
    using d b by (auto simp: distinct_map inj_on_def)
  have other: "\<forall>x \<in> set (bookings st). \<forall>y \<in> set (bookings st).
      booking_oid x \<noteq> i \<longrightarrow> booking_oid y = i \<longrightarrow> ?key x \<noteq> ?key (?f y)"
  proof (intro ballI impI)
    fix x y assume x: "x \<in> set (bookings st)" "booking_oid x \<noteq> i"
      and y: "y \<in> set (bookings st)" "booking_oid y = i"
    from y only have "y = b" by simp
    with free x b show "?key x \<noteq> ?key (?f y)"
      by (auto simp: index_taken_def)
  qed
  have ids: "map booking_oid (update_first (\<lambda>b. booking_oid b = i) ?f (bookings st)) =
             map booking_oid (bookings st)"
    by (rule map_update_first_same) (rule booking_set_oid)
  have keys: "distinct (map ?key (update_first (\<lambda>b. booking_oid b = i) ?f (bookings st)))"
    by (rule update_first_distinct_keys [OF d k other])
  have bound: "\<forall>x \<in> set (update_first (\<lambda>b. booking_oid b = i) ?f (bookings st)). booking_oid x < next_oid st"
  proof
    fix x assume "x \<in> set (update_first (\<lambda>b. booking_oid b = i) ?f (bookings st))"
    then have "booking_oid x \<in> set (map booking_oid (update_first (\<lambda>b. booking_oid b = i) ?f (bookings st)))"
      by simp
    then have "booking_oid x \<in> booking_oid ` set (bookings st)"
      unfolding ids by simp
    with n show "booking_oid x < next_oid st" by auto
  qed
  show ?thesis
    unfolding st' bookings_ok_def one_booking_per_date_def
    using ids d keys bound by simp
qed

lemma Booking_create_ok:
  assumes "Booking_create e st body = Inr (b, st')" and "bookings_ok st"
  shows "bookings_ok st'"
proof -
  from assms(1) have st': "st' = st\<lparr>bookings := bookings st @ [b], next_oid := Suc (next_oid st)\<rparr>"
    and i: "booking_oid b = next_oid st"
    by (auto simp: Booking_create_def booking_of_body_def split: option.splits if_splits Option.bind_splits)
  from assms have u: "one_booking_per_date (bookings st')"
    by (intro Booking_create_keeps_unique [OF assms(1)]) (simp add: bookings_ok_def)
  from assms(2) have "distinct (map booking_oid (bookings st))"
    and n: "\<forall>b \<in> set (bookings st). booking_oid b < next_oid st"
    by (auto simp: bookings_ok_def)
  then show ?thesis
    using u i unfolding bookings_ok_def st' by (auto simp: less_Suc_eq)
qed

lemma createBooking_ok:
  "bookings_ok st \<Longrightarrow> bookings_ok (snd (createBooking e errors st u body))"
  using createBooking_store [of e errors st u body] Booking_create_ok by auto

lemma updateBooking_ok:
  "bookings_ok st \<Longrightarrow> bookings_ok (snd (updateBooking e errors st u i body))"
  by (auto simp: updateBooking_def split: option.splits sum.splits intro: Booking_findByIdAndUpdate_ok)

lemma changeBookingStatus_ok:
  "bookings_ok st \<Longrightarrow> bookings_ok (snd (changeBookingStatus e errors st u i body))"
  by (auto simp: changeBookingStatus_def split: option.splits sum.splits if_splits
        intro: Booking_findByIdAndUpdate_ok)

lemma distinct_map_remove1:
  "distinct (map g xs) \<Longrightarrow> distinct (map g (remove1 x xs))"
proof (induction xs)
  case Nil
  then show ?case by simp
next
  case (Cons a xs)
  have "g a \<notin> g ` set (remove1 x xs)"
    using Cons.prems set_remove1_subset [of x xs] by auto
  with Cons show ?case by simp
qed

lemma deleteBooking_ok:
  assumes "bookings_ok st"
  shows "bookings_ok (snd (deleteBooking st u i))"
proof -
  have "bookings_ok (st\<lparr>bookings := remove1 b (bookings st)\<rparr>)" for b
    using assms set_remove1_subset [of b "bookings st"]
    by (auto simp: bookings_ok_def one_booking_per_date_def distinct_map_remove1)
  then show ?thesis
    using assms by (simp add: deleteBooking_def split: option.splits)
qed

lemma decimal_100: "decimal 100 = ''100''"
  by code_simp

lemma Number_toString_100: "Number_toString e 100 = ''100''"
  by (simp add: Number_toString_def decimal_100)

lemma validateBooking_example:
  "validateBooking example_env (booking_request v ''2025-06-01'' 50) = []"
  "validateBooking example_env (booking_request v ''2025-06-01'' 150) = []"
  by (simp_all add: validateBooking_def check_def notEmpty_def booking_request_def
        no_booking_fields_def example_env_def)

lemma booking_request_fields:
  "bk_venue_id (booking_request v d g) = Some v"
  "bk_reservation_date (booking_request v d g) = Some d"
  "bk_guest_count (booking_request v d g) = Some g"
  by (simp_all add: booking_request_def no_booking_fields_def)

lemma new_Date_example:
  "new_Date example_env (Some ''2025-06-01'') = Some 1748736000000"
  by (simp add: new_Date_def example_env_def)

text \<open>
  C1, as the code has it. When a booking of the same venue on the same parsed date is
  already stored, createBooking stores nothing and fails with 400 or 404. The failure is
  the 400 \<open>Venue is already booked for this date\<close> exactly when the request has passed
  validation and the venue exists, is approved and has the capacity for the guest count:
  the checks of the venue come first and answer with their own errors. In every case
  createBooking keeps at most one booking for a venue and a date, and on a store with
  well-formed bookings so does every handler that writes bookings, by the unique index.
\<close>

theorem createBooking_conflict:
  "(b \<in> set (bookings st) \<and> bk_venue_id body = Some (venue_id b) \<and>
    new_Date e (bk_reservation_date body) = Some (reservation_date b) \<longrightarrow>
      snd (createBooking e errors st u body) = st \<and>
      statusCode (fst (createBooking e errors st u body)) \<in> {400, 404} \<and>
      (fst (createBooking e errors st u body) = AppError ''Venue is already booked for this date'' 400 \<longleftrightarrow>
         errors = [] \<and>
         (\<exists>v. Venue_findById st (bk_venue_id body) = Some v \<and> status v = ''tasdiqlangan'' \<and>
              (\<forall>g. bk_guest_count body = Some g \<longrightarrow> g \<le> capacity v)))) \<and>
   (one_booking_per_date (bookings st) \<longrightarrow>
      one_booking_per_date (bookings (snd (createBooking e errors st u body)))) \<and>
   (bookings_ok st \<longrightarrow>
      bookings_ok (snd (createBooking e errors st u body)) \<and>
      bookings_ok (snd (updateBooking e errors st u i body)) \<and>
      bookings_ok (snd (changeBookingStatus e errors st u i body)) \<and>
      bookings_ok (snd (deleteBooking st u i)))"
proof (intro conjI impI)
  assume ok: "bookings_ok st"
  show "bookings_ok (snd (createBooking e errors st u body))"
    using ok by (rule createBooking_ok)
  show "bookings_ok (snd (updateBooking e errors st u i body))"
    using ok by (rule updateBooking_ok)
  show "bookings_ok (snd (changeBookingStatus e errors st u i body))"
    using ok by (rule changeBookingStatus_ok)
  show "bookings_ok (snd (deleteBooking st u i))"
    using ok by (rule deleteBooking_ok)
next
  assume inv: "one_booking_per_date (bookings st)"
  show "one_booking_per_date (bookings (snd (createBooking e errors st u body)))"
    using createBooking_store [of e errors st u body] inv Booking_create_keeps_unique
    by auto
next
  assume ex: "b \<in> set (bookings st) \<and> bk_venue_id body = Some (venue_id b) \<and>
    new_Date e (bk_reservation_date body) = Some (reservation_date b)"
  then have f: "find (\<lambda>x. Some (venue_id x) = bk_venue_id body \<and>
                         reservation_date x = reservation_date b) (bookings st) \<noteq> None"
    by (intro find_existing [of b]) auto
  show "snd (createBooking e errors st u body) = st"
    using ex f by (auto simp: createBooking_def split: option.splits)
  show "statusCode (fst (createBooking e errors st u body)) \<in> {400, 404}"
    using ex f by (auto simp: createBooking_def split: option.splits)
  show "fst (createBooking e errors st u body) = AppError ''Venue is already booked for this date'' 400 \<longleftrightarrow>
         errors = [] \<and>
         (\<exists>v. Venue_findById st (bk_venue_id body) = Some v \<and> status v = ''tasdiqlangan'' \<and>
              (\<forall>g. bk_guest_count body = Some g \<longrightarrow> g \<le> capacity v))"
    using ex f by (auto simp: createBooking_def split: option.splits)
qed

text \<open>
  The booking of venue 11 on 2025-06-01 is stored, and a request for the same venue and
  date with 150 guests is answered with the capacity error, not with the conflict error.
\<close>

theorem createBooking_conflict_counterexample:
  "booking20 \<in> set (bookings example_store) \<and>
   bk_venue_id (booking_request 11 ''2025-06-01'' 150) = Some (venue_id booking20) \<and>
   new_Date example_env (bk_reservation_date (booking_request 11 ''2025-06-01'' 150)) =
     Some (reservation_date booking20) \<and>
   fst (post_booking example_env example_store (Some ''jwt-4'') (booking_request 11 ''2025-06-01'' 150)) =
     AppError ''Guest count exceeds venue capacity of 100'' 400 \<and>
   fst (post_booking example_env example_store (Some ''jwt-4'') (booking_request 11 ''2025-06-01'' 150)) \<noteq>
     AppError ''Venue is already booked for this date'' 400"
proof -
  let ?req = "booking_request 11 ''2025-06-01'' 150"
  have c: "status venue11 = ''tasdiqlangan''" "capacity venue11 = 100"
    by (simp_all add: venue11_def)
  have r: "createBooking example_env [] example_store user4 ?req =
             (AppError ''Guest count exceeds venue capacity of 100'' 400, example_store)"
    by (simp add: createBooking_def booking_request_fields Venue_findById_example c
          Number_toString_100)
  have p: "fst (post_booking example_env example_store (Some ''jwt-4'') ?req) =
             AppError ''Guest count exceeds venue capacity of 100'' 400"
    by (simp add: post_booking_def protect_example validateBooking_example r)
  have b: "booking20 \<in> set (bookings example_store)"
    by (simp add: example_store_def)
  have d: "venue_id booking20 = 11" "reservation_date booking20 = 1748736000000"
    by (simp_all add: booking20_def)
  show ?thesis
    using b by (simp add: p booking_request_fields new_Date_example d)
qed

theorem createBooking_conflict_witness:
  "booking20 \<in> set (bookings example_store) \<and>
   createBooking example_env (validateBooking example_env (booking_request 11 ''2025-06-01'' 50))
     example_store user4 (booking_request 11 ''2025-06-01'' 50) =
     (AppError ''Venue is already booked for this date'' 400, example_store) \<and>
   one_booking_per_date (bookings (snd (createBooking example_env
      (validateBooking example_env (booking_request 11 ''2025-06-01'' 50))
      example_store user4 (booking_request 11 ''2025-06-01'' 50)))) \<and>
   bookings_ok example_store \<and>
   bookings_ok (snd (updateBooking example_env
      (validateBooking example_env (booking_request 11 ''2025-06-01'' 50))
      example_store user4 20 (booking_request 11 ''2025-06-01'' 50)))"
proof -
  let ?req = "booking_request 11 ''2025-06-01'' 50"
  have v: "validateBooking example_env ?req = []"
    by (rule validateBooking_example)
  have b: "booking20 \<in> set (bookings example_store)"
    by (simp add: example_store_def)
  have i: "bk_venue_id ?req = Some (venue_id booking20)"
    by (simp add: booking_request_fields booking20_def)
  have d: "new_Date example_env (bk_reservation_date ?req) = Some (reservation_date booking20)"
    by (simp add: booking_request_fields new_Date_example booking20_def)
  have f: "Venue_findById example_store (bk_venue_id ?req) = Some venue11"
    by (simp add: booking_request_fields Venue_findById_example)
  have c: "status venue11 = ''tasdiqlangan'' \<and>
           (\<forall>g. bk_guest_count ?req = Some g \<longrightarrow> g \<le> capacity venue11)"
    by (simp add: booking_request_fields venue11_def)
  have inv: "one_booking_per_date (bookings example_store)"
    by (simp add: one_booking_per_date_def example_store_def)
  have ok: "bookings_ok example_store"
    by (simp add: bookings_ok_def one_booking_per_date_def example_store_def booking20_def)
  note t = createBooking_conflict [of booking20 example_store ?req example_env
      "validateBooking example_env ?req" user4 20]
  from t b i d v f c
  have "fst (createBooking example_env (validateBooking example_env ?req) example_store user4 ?req) =
      AppError ''Venue is already booked for this date'' 400"
    by blast
  moreover from t b i d
  have "snd (createBooking example_env (validateBooking example_env ?req) example_store user4 ?req) =
      example_store"
    by blast
  moreover from t inv
  have "one_booking_per_date (bookings (snd (createBooking example_env
      (validateBooking example_env ?req) example_store user4 ?req)))"
    by blast
  moreover from t ok
  have "bookings_ok (snd (updateBooking example_env (validateBooking example_env ?req)
      example_store user4 20 ?req))"
    by blast
  ultimately show ?thesis using b ok by (simp add: prod_eq_iff)
qed

section \<open>The capacity of the venue\<close>

lemma Booking_findById_example:
  "Booking_findById example_store (Some 20) = Some booking20"
  by (simp add: Booking_findById_def example_store_def booking20_def)

lemma validateBooking_example_2:
  "validateBooking example_env (booking_request v ''2025-06-02'' 150) = []"
  by (simp add: validateBooking_def check_def notEmpty_def booking_request_def
        no_booking_fields_def example_env_def)

text \<open>
  C6, as the code has it. createBooking answers with the 400 error whose message ends
  with the capacity of the venue, as the template literal prints it, when the guest
  count exceeds the capacity, provided that the request has passed validation and the
  venue exists and is approved. updateBooking does so when the booking exists, the user
  is its creator or an admin, the check of the reservation date has passed, the patch
  carries a guest count other than zero and leaves the booking at its venue, and that
  venue still exists. The store stays as it was. The capacity is printed with its
  decimal digits when it is a safe integer (below \<open>2^53\<close>).
\<close>

theorem capacity_exceeded:
  "(errors = [] \<and> Venue_findById st (bk_venue_id body) = Some v \<and> status v = ''tasdiqlangan'' \<and>
    bk_guest_count body = Some g \<and> g > capacity v \<longrightarrow>
      createBooking e errors st u body =
        (AppError (''Guest count exceeds venue capacity of '' @ Number_toString e (capacity v)) 400,
         st)) \<and>
   (errors = [] \<and> Booking_findById st (Some i) = Some b \<and>
    (user_id b = user_oid u \<or> role u = ''admin'') \<and>
    reservation_date_check e st b body = (None :: booking option response option) \<and>
    (bk_venue_id body = None \<or> bk_venue_id body = Some (venue_id b)) \<and>
    Venue_findById st (Some (venue_id b)) = Some v \<and>
    bk_guest_count body = Some g \<and> g \<noteq> 0 \<and> g > capacity v \<longrightarrow>
      updateBooking e errors st u i body =
        (AppError (''Guest count exceeds venue capacity of '' @ Number_toString e (capacity v)) 400,
         st)) \<and>
   (\<bar>capacity v\<bar> < 2 ^ 53 \<longrightarrow> Number_toString e (capacity v) = decimal (capacity v))"
proof (intro conjI impI)
  assume "errors = [] \<and> Venue_findById st (bk_venue_id body) = Some v \<and>
    status v = ''tasdiqlangan'' \<and> bk_guest_count body = Some g \<and> g > capacity v"
  then show "createBooking e errors st u body =
      (AppError (''Guest count exceeds venue capacity of '' @ Number_toString e (capacity v)) 400, st)"
    by (simp add: createBooking_def)
next
  assume a: "errors = [] \<and> Booking_findById st (Some i) = Some b \<and>
    (user_id b = user_oid u \<or> role u = ''admin'') \<and>
    reservation_date_check e st b body = (None :: booking option response option) \<and>
    (bk_venue_id body = None \<or> bk_venue_id body = Some (venue_id b)) \<and>
    Venue_findById st (Some (venue_id b)) = Some v \<and>
    bk_guest_count body = Some g \<and> g \<noteq> 0 \<and> g > capacity v"
  then have "guest_count_check e st b body =
      (Some (AppError (''Guest count exceeds venue capacity of '' @
                       Number_toString e (capacity v)) 400)
         :: booking option response option)"
    by (simp add: guest_count_check_def truthy_number_def)
  with a show "updateBooking e errors st u i body =
      (AppError (''Guest count exceeds venue capacity of '' @ Number_toString e (capacity v)) 400, st)"
    by (auto simp: updateBooking_def)
next
  assume "\<bar>capacity v\<bar> < 2 ^ 53"
  then show "Number_toString e (capacity v) = decimal (capacity v)"
    by (simp add: Number_toString_def)
qed

text \<open>
  Venue 10 has capacity 100 and is not approved: a request for 150 guests is answered
  with the approval error, whose message does not name the capacity.
\<close>

theorem capacity_exceeded_counterexample:
  "Venue_findById example_store (bk_venue_id (booking_request 10 ''2025-06-01'' 150)) = Some venue10 \<and>
   capacity venue10 = 100 \<and>
   bk_guest_count (booking_request 10 ''2025-06-01'' 150) = Some 150 \<and>
   fst (post_booking example_env example_store (Some ''jwt-4'') (booking_request 10 ''2025-06-01'' 150)) =
     AppError ''Venue is not approved for bookings'' 400 \<and>
   CHR ''1'' \<notin> set ''Venue is not approved for bookings''"
proof -
  let ?req = "booking_request 10 ''2025-06-01'' 150"
  have c: "status venue10 = ''tasdiqlanmagan''" "capacity venue10 = 100"
    by (simp_all add: venue10_def)
  have r: "createBooking example_env [] example_store user4 ?req =
             (AppError ''Venue is not approved for bookings'' 400, example_store)"
    by (simp add: createBooking_def booking_request_fields Venue_findById_example c)
  show ?thesis
    by (simp add: post_booking_def protect_example validateBooking_example r
          booking_request_fields Venue_findById_example c)
qed

theorem capacity_exceeded_witness:
  "createBooking example_env (validateBooking example_env (booking_request 11 ''2025-06-02'' 150))
     example_store user4 (booking_request 11 ''2025-06-02'' 150) =
     (AppError ''Guest count exceeds venue capacity of 100'' 400, example_store) \<and>
   updateBooking example_env [] example_store user4 20 (guests_patch 150) =
     (AppError ''Guest count exceeds venue capacity of 100'' 400, example_store) \<and>
   Number_toString example_env (capacity venue11) = ''100''"
proof -
  let ?req = "booking_request 11 ''2025-06-02'' 150"
  have v: "validateBooking example_env ?req = []"
    by (rule validateBooking_example_2)
  have c: "status venue11 = ''tasdiqlangan''" "capacity venue11 = 100"
    by (simp_all add: venue11_def)
  have b: "user_id booking20 = user_oid user4" "venue_id booking20 = 11"
    by (simp_all add: booking20_def user4_def)
  have d: "reservation_date_check example_env example_store booking20 (guests_patch 150) =
             (None :: booking option response option)"
    by (simp add: reservation_date_check_def guests_patch_def no_booking_fields_def notEmpty_def)
  have g: "bk_guest_count (guests_patch 150) = Some 150" "bk_venue_id (guests_patch 150) = None"
    by (simp_all add: guests_patch_def no_booking_fields_def)
  note t = capacity_exceeded [of "validateBooking example_env ?req" example_store ?req venue11 150
      example_env user4]
  note t' = capacity_exceeded [of "[]" example_store "guests_patch 150" venue11 150 example_env
      user4 20 booking20]
  have "createBooking example_env (validateBooking example_env ?req) example_store user4 ?req =
     (AppError (''Guest count exceeds venue capacity of '' @
                Number_toString example_env (capacity venue11)) 400, example_store)"
    using t v c by (simp add: booking_request_fields Venue_findById_example)
  moreover have "updateBooking example_env [] example_store user4 20 (guests_patch 150) =
     (AppError (''Guest count exceeds venue capacity of '' @
                Number_toString example_env (capacity venue11)) 400, example_store)"
    using t' b c d g by (simp add: Booking_findById_example Venue_findById_example)
  moreover have "Number_toString example_env (capacity venue11) = decimal (capacity venue11)"
    using t by (simp add: c)
  ultimately show ?thesis
    by (simp add: c decimal_100)
qed

section \<open>Authorization of a venue update\<close>

lemma validateVenue_example:
  "validateVenue (venue_request None) = []"
  "validateVenue (venue_request (Some ''tasdiqlangan'')) = []"
  "validateVenue no_capacity_request \<noteq> []"
  by (simp_all add: validateVenue_def check_def notEmpty_def venue_request_def venue_statuses_def
        no_capacity_request_def)

text \<open>
  C4, as the code has it. On the update route of an existing venue, for an authenticated
  user who is neither the owner of the venue nor an admin, the store stays as it was and
  the status of the answer is 403 or 400. The request fails with 403 when its body
  passes \<open>validateVenue\<close>, and with the 400 validation reply when a field that the body
  carries is out of range (a capacity below 1, a negative price, a status outside the
  enumeration), since the handler looks at the validation result before it loads the
  venue. An admin is never refused with 403, and for a body that passes validation the
  answer of the handler is the outcome of the update in the store.
\<close>

theorem updateVenue_authorization:
  assumes "protect e st token = (Inr u :: venue option response + user)"
    and "Venue_findById st (Some i) = Some v"
  shows "(owner_id v \<noteq> user_oid u \<and> role u \<noteq> ''admin'' \<longrightarrow>
            snd (put_venue e st token i body) = st \<and>
            statusCode (fst (put_venue e st token i body)) \<in> {400, 403} \<and>
            (validateVenue body = [] \<longrightarrow>
               fst (put_venue e st token i body) =
                 AppError ''Not authorized to update this venue'' 403) \<and>
            ((\<exists>c. body_capacity body = Some c \<and> c < 1) \<or>
             (\<exists>p. body_price_seat body = Some p \<and> p < 0) \<or>
             (\<exists>s. body_status body = Some s \<and> s \<notin> set venue_statuses) \<longrightarrow>
               fst (put_venue e st token i body) = Errors 400 (validateVenue body))) \<and>
         (role u = ''admin'' \<longrightarrow>
            fst (put_venue e st token i body) \<noteq> AppError ''Not authorized to update this venue'' 403 \<and>
            (validateVenue body = [] \<longrightarrow>
               put_venue e st token i body =
                 (case Venue_findByIdAndUpdate e st i body of
                    Inl error \<Rightarrow> (Thrown error, st)
                  | Inr (venue', st') \<Rightarrow> (Json 200 venue', st'))))"
proof (intro conjI impI)
  assume n: "owner_id v \<noteq> user_oid u \<and> role u \<noteq> ''admin''"
  show "snd (put_venue e st token i body) = st"
    using assms n by (simp add: put_venue_def updateVenue_def)
  show "statusCode (fst (put_venue e st token i body)) \<in> {400, 403}"
    using assms n by (simp add: put_venue_def updateVenue_def)
  show "fst (put_venue e st token i body) = AppError ''Not authorized to update this venue'' 403"
    if "validateVenue body = []"
    using assms n that by (simp add: put_venue_def updateVenue_def)
  show "fst (put_venue e st token i body) = Errors 400 (validateVenue body)"
    if r: "(\<exists>c. body_capacity body = Some c \<and> c < 1) \<or>
           (\<exists>p. body_price_seat body = Some p \<and> p < 0) \<or>
           (\<exists>s. body_status body = Some s \<and> s \<notin> set venue_statuses)"
  proof -
    from r have "validateVenue body \<noteq> []"
      by (auto simp: validateVenue_def check_def)
    then show ?thesis
      using assms by (simp add: put_venue_def updateVenue_def)
  qed
next
  assume a: "role u = ''admin''"
  show "fst (put_venue e st token i body) \<noteq> AppError ''Not authorized to update this venue'' 403"
    using assms a
    by (auto simp: put_venue_def updateVenue_def split: sum.splits)
  show "put_venue e st token i body =
      (case Venue_findByIdAndUpdate e st i body of
         Inl error \<Rightarrow> (Thrown error, st)
       | Inr (venue', st') \<Rightarrow> (Json 200 venue', st'))"
    if "validateVenue body = []"
    using assms a that by (simp add: put_venue_def updateVenue_def)
qed

text \<open>
  Owner 3 sends a complete body with capacity 0 for venue 10, which owner 2 owns: the
  answer is the 400 validation reply.
\<close>

theorem updateVenue_authorization_counterexample:
  "protect example_env example_store (Some ''jwt-3'') = (Inr owner3 :: venue option response + user) \<and>
   Venue_findById example_store (Some 10) = Some venue10 \<and>
   owner_id venue10 \<noteq> user_oid owner3 \<and> role owner3 \<noteq> ''admin'' \<and>
   body_capacity no_capacity_request = Some 0 \<and>
   statusCode (fst (put_venue example_env example_store (Some ''jwt-3'') 10 no_capacity_request)) = 400"
proof -
  have "fst (put_venue example_env example_store (Some ''jwt-3'') 10 no_capacity_request) =
          Errors 400 (validateVenue no_capacity_request)"
    by (simp add: put_venue_def protect_example updateVenue_def validateVenue_example)
  then show ?thesis
    by (simp add: protect_example Venue_findById_example venue10_def owner3_def
          no_capacity_request_def)
qed

theorem updateVenue_authorization_witness:
  "put_venue example_env example_store (Some ''jwt-3'') 10 (venue_request None) =
     (AppError ''Not authorized to update this venue'' 403, example_store) \<and>
   put_venue example_env example_store (Some ''jwt-3'') 10 no_capacity_request =
     (Errors 400 (validateVenue no_capacity_request), example_store) \<and>
   fst (put_venue example_env example_store (Some ''jwt-1'') 10 (venue_request None)) =
     Json 200 (Some (venue_set example_env (venue_request None) venue10))"
proof -
  have o: "owner_id venue10 \<noteq> user_oid owner3 \<and> role owner3 \<noteq> ''admin''"
    by (simp add: venue10_def owner3_def)
  have a: "role admin1 = ''admin''"
    by (simp add: admin1_def)
  have c: "\<exists>c. body_capacity no_capacity_request = Some c \<and> c < 1"
    by (simp add: no_capacity_request_def)
  have upd: "Venue_findByIdAndUpdate example_env example_store 10 (venue_request None) =
      Inr (Some (venue_set example_env (venue_request None) venue10),
           example_store\<lparr>venues := update_first (\<lambda>v. venue_oid v = 10)
              (venue_set example_env (venue_request None)) (venues example_store)\<rparr>)"
    by (simp add: Venue_findByIdAndUpdate_def Venue_findById_example venue_update_casts_def
          venue_update_valid_def venue_request_def example_env_def strip_spaces_def)
  note t3 = updateVenue_authorization [OF protect_example(3) Venue_findById_example(1)]
  note t1 = updateVenue_authorization [OF protect_example(1) Venue_findById_example(1),
      of "venue_request None"]
  have "put_venue example_env example_store (Some ''jwt-3'') 10 (venue_request None) =
      (AppError ''Not authorized to update this venue'' 403, example_store)"
    using t3 [of "venue_request None"] o validateVenue_example(1) by (simp add: prod_eq_iff)
  moreover have "put_venue example_env example_store (Some ''jwt-3'') 10 no_capacity_request =
      (Errors 400 (validateVenue no_capacity_request), example_store)"
    using t3 [of no_capacity_request] o c by (simp add: prod_eq_iff)
  moreover have "fst (put_venue example_env example_store (Some ''jwt-1'') 10 (venue_request None)) =
      Json 200 (Some (venue_set example_env (venue_request None) venue10))"
    using t1 a validateVenue_example(1) by (simp add: upd)
  ultimately show ?thesis by simp
qed

section \<open>Login and registration\<close>

lemma User_findOne_username_example:
  "User_findOne_username example_env example_store (Some ''eldor'') = Some user4"
  "User_findOne_username example_env example_store (Some ''ghost'') = None"
  "User_findOne_username example_env example_store (Some ''farhod'') = None"
  by (simp_all add: User_findOne_username_def example_store_def admin1_def owner2_def
        owner3_def user4_def example_env_def strip_spaces_def)

text \<open>
  A login request whose password is a string: the response is the same whether no user
  of the requested name exists or the user exists and the password does not match.
\<close>

lemma login_wrong_text_password:
  assumes "User_findOne_username e st1 (lb_username body) = None"
    and "User_findOne_username e st2 (lb_username body) = Some u"
    and "lb_password body = Some (Text p)"
    and "\<not> bcrypt_compare e p (password u)"
  shows "fst (post_login e st1 body) = fst (post_login e st2 body)"
  using assms by (simp add: post_login_def login_def)

text \<open>
  C9 fails for a password that is a JSON number. The request
  \<open>{"username": "eldor", "password": 123456}\<close> passes \<open>validateLogin\<close>, and so does
  the same request for the name \<open>ghost\<close>. No user is called \<open>ghost\<close>, and the answer is
  the error \<open>Invalid credentials\<close> with status 401. User 4 is called \<open>eldor\<close>, and the
  comparison of the password throws: the answer is the thrown error, not the 401 error,
  so the two causes of failure are told apart.
\<close>

theorem login_number_password:
  "validateLogin (credentials ''eldor'' (Number 123456)) = [] \<and>
   validateLogin (credentials ''ghost'' (Number 123456)) = [] \<and>
   User_findOne_username example_env example_store (Some ''ghost'') = None \<and>
   User_findOne_username example_env example_store (Some ''eldor'') = Some user4 \<and>
   post_login example_env example_store (credentials ''ghost'' (Number 123456)) =
     (AppError ''Invalid credentials'' 401, example_store) \<and>
   post_login example_env example_store (credentials ''eldor'' (Number 123456)) =
     (Thrown IllegalArguments, example_store) \<and>
   fst (post_login example_env example_store (credentials ''eldor'' (Number 123456))) \<noteq>
     fst (post_login example_env example_store (credentials ''ghost'' (Number 123456)))"
proof -
  have v: "validateLogin (credentials n (Number 123456)) = []" if "n \<noteq> []" for n
    using that
    by (simp add: validateLogin_def check_def notEmpty_def notEmpty_value_def credentials_def)
  have g: "post_login example_env example_store (credentials ''ghost'' (Number 123456)) =
      (AppError ''Invalid credentials'' 401, example_store)"
    by (simp add: post_login_def login_def v)
       (simp add: credentials_def User_findOne_username_example)
  have k: "post_login example_env example_store (credentials ''eldor'' (Number 123456)) =
      (Thrown IllegalArguments, example_store)"
    by (simp add: post_login_def login_def v)
       (simp add: credentials_def User_findOne_username_example)
  show ?thesis
    by (simp add: v g k User_findOne_username_example)
qed

text \<open>
  C10. The register route is public. For a request whose role is one of \<open>admin\<close>,
  \<open>owner\<close>, \<open>user\<close> and for whose name, trimmed, the store has no user, every user that
  the request adds to the store has the requested role. The request adds exactly one
  user, with the requested role and the trimmed names, when it passes \<open>validateUser\<close> and
  its first name, last name and username are not empty after trimming, and is answered
  with the 400 validation reply when it does not pass \<open>validateUser\<close>. The witness
  registers an admin.
\<close>

theorem register_supplied_role:
  assumes "ub_role body = Some r" and "r \<in> set roles"
    and "User_findOne_username e st (ub_username body) = None"
  shows "(\<forall>u \<in> set (users (snd (post_register e st body))). u \<in> set (users st) \<or> role u = r) \<and>
         (validateUser body = [] \<and>
          ub_firstname body = Some f \<and> trim e f \<noteq> [] \<and>
          ub_lastname body = Some l \<and> trim e l \<noteq> [] \<and>
          ub_username body = Some n \<and> trim e n \<noteq> [] \<longrightarrow>
            (\<exists>u. post_register e st body =
                   (Json 201 (auth_json e u),
                    st\<lparr>users := users st @ [u], next_oid := Suc (next_oid st)\<rparr>) \<and>
                 role u = r \<and> firstname u = trim e f \<and> lastname u = trim e l \<and>
                 username u = trim e n)) \<and>
         (validateUser body \<noteq> [] \<longrightarrow> post_register e st body = (Errors 400 (validateUser body), st))"
proof (intro conjI impI)
  have r: "r \<noteq> []" using assms(2) by (auto simp: roles_def)
  have taken: "\<And>x i. ub_username body = Some x \<Longrightarrow> \<not> username_taken (users st) i (trim e x)"
    using assms(3) by (auto simp: User_findOne_username_def username_taken_def find_None_iff)
  show "\<forall>u \<in> set (users (snd (post_register e st body))). u \<in> set (users st) \<or> role u = r"
    using assms r
    by (auto simp: post_register_def register_def User_create_def user_of_body_def notEmpty_def
          pre_save_def split: option.splits if_splits sum.splits Option.bind_splits)
  show "post_register e st body = (Errors 400 (validateUser body), st)"
    if "validateUser body \<noteq> []"
    using that by (simp add: post_register_def register_def)
  show "\<exists>u. post_register e st body =
             (Json 201 (auth_json e u),
              st\<lparr>users := users st @ [u], next_oid := Suc (next_oid st)\<rparr>) \<and>
           role u = r \<and> firstname u = trim e f \<and> lastname u = trim e l \<and> username u = trim e n"
    if h: "validateUser body = [] \<and>
          ub_firstname body = Some f \<and> trim e f \<noteq> [] \<and>
          ub_lastname body = Some l \<and> trim e l \<noteq> [] \<and>
          ub_username body = Some n \<and> trim e n \<noteq> []"
  proof -
    from h obtain p where p: "ub_password body = Some p" "6 \<le> length p"
      by (auto simp: validateUser_def check_def split: option.splits if_splits)
    define d where "d = \<lparr> user_oid = next_oid st, firstname = trim e f, lastname = trim e l,
      username = trim e n, password = p, role = r \<rparr>"
    have b: "user_of_body e (next_oid st)
               (body\<lparr>ub_role := (if notEmpty (ub_role body) then ub_role body else Some ''user'')\<rparr>) =
             Some d"
      using h p assms(1) r by (simp add: user_of_body_def notEmpty_def d_def)
    have ok: "userSchema_valid all_user_paths d"
      using h p assms(2) by (simp add: userSchema_valid_def d_def)
    have free: "\<not> username_taken (users st) (user_oid d) (username d)"
      using taken [of n] h by (simp add: d_def)
    have "post_register e st body =
        (Json 201 (auth_json e (pre_save e all_user_paths d)),
         st\<lparr>users := users st @ [pre_save e all_user_paths d], next_oid := Suc (next_oid st)\<rparr>)"
      using h assms(3) b ok free
      by (simp add: post_register_def register_def User_create_def)
    moreover have "role (pre_save e all_user_paths d) = r \<and>
        firstname (pre_save e all_user_paths d) = trim e f \<and>
        lastname (pre_save e all_user_paths d) = trim e l \<and>
        username (pre_save e all_user_paths d) = trim e n"
      by (simp add: pre_save_def d_def)
    ultimately show ?thesis by blast
  qed
qed

theorem register_supplied_role_witness:
  "ub_role (register_request ''farhod'' (Some ''admin'')) = Some ''admin'' \<and>
   ''admin'' \<in> set roles \<and>
   User_findOne_username example_env example_store
     (ub_username (register_request ''farhod'' (Some ''admin''))) = None \<and>
   statusCode (fst (post_register example_env example_store
      (register_request ''farhod'' (Some ''admin'')))) = 201 \<and>
   role (last (users (snd (post_register example_env example_store
      (register_request ''farhod'' (Some ''admin'')))))) = ''admin'' \<and>
   username (last (users (snd (post_register example_env example_store
      (register_request ''farhod'' (Some ''admin'')))))) = ''farhod''"
proof -
  let ?body = "register_request ''farhod'' (Some ''admin'')"
  have r: "ub_role ?body = Some ''admin''" by (simp add: register_request_def)
  have a: "''admin'' \<in> set roles" by (simp add: roles_def)
  have n: "User_findOne_username example_env example_store (ub_username ?body) = None"
    by (simp add: register_request_def User_findOne_username_example)
  have v: "validateUser ?body = []"
    by (simp add: validateUser_def check_def notEmpty_def register_request_def roles_def)
  have f: "ub_firstname ?body = Some ''Farhod''" "ub_lastname ?body = Some ''Nazarov''"
    "ub_username ?body = Some ''farhod''"
    by (simp_all add: register_request_def)
  have t: "trim example_env ''Farhod'' = ''Farhod''" "trim example_env ''Nazarov'' = ''Nazarov''"
    "trim example_env ''farhod'' = ''farhod''"
    by (simp_all add: example_env_def strip_spaces_def)
  from register_supplied_role [OF r a n, of "''Farhod''" "''Nazarov''" "''farhod''"] v f t
  obtain u where "post_register example_env example_store ?body =
       (Json 201 (auth_json example_env u),
        example_store\<lparr>users := users example_store @ [u], next_oid := Suc (next_oid example_store)\<rparr>)"
     and "role u = ''admin''" and "username u = ''farhod''"
    by auto
  then show ?thesis
    using r a n by simp
qed

section \<open>The password in an update of a user\<close>

lemma map_update_first_found:
  assumes "find p xs = Some u" and "g (f u) = g u"
  shows "map g (update_first p f xs) = map g xs"
  using assms by (induction xs) (auto split: if_splits)

lemma User_save_password:
  assumes "User_save e st modified u' = Inr (r, st')"
    and "User_findById st (Some (user_oid u')) = Some u"
    and "password u' = password u" and "''password'' \<notin> set modified"
  shows "map password (users st') = map password (users st)"
proof -
  from assms(1) have st': "users st' = update_first (\<lambda>x. user_oid x = user_oid u')
      (\<lambda>x. pre_save e modified u') (users st)"
    by (auto simp: User_save_def split: if_splits)
  have "find (\<lambda>x. user_oid x = user_oid u') (users st) = Some u"
    using assms(2) by (simp add: User_findById_def)
  then show ?thesis
    unfolding st' using assms(3,4)
    by (intro map_update_first_found [where u = u]) (simp_all add: pre_save_def)
qed

lemma updateUser_password_irrelevant:
  "updateUser e errors st i (body\<lparr>ub_password := p\<rparr>) = updateUser e errors st i body"
  by (cases "User_findById st (Some i)")
     (simp_all add: updateUser_def Let_def cong: if_cong option.case_cong)

lemma assign_keeps:
  assumes "\<And>v x. g (f v x) = g x"
  shows "g (assign y f u) = g u"
  using assms by (simp add: assign_def split: option.splits)

lemma assigned_not_password:
  "''password'' \<notin> set (assigned x ''firstname'')"
  "''password'' \<notin> set (assigned x ''lastname'')"
  "''password'' \<notin> set (assigned x ''username'')"
  "''password'' \<notin> set (assigned x ''role'')"
  by (simp_all add: assigned_def)

lemma updateUser_passwords:
  "map password (users (snd (updateUser e errors st i body))) = map password (users st)"
proof (cases "User_findById st (Some i)")
  case None
  then show ?thesis by (simp add: updateUser_def)
next
  case (Some u)
  define u4 where "u4 = assign (ub_role body) (\<lambda>x u. u\<lparr>role := x\<rparr>)
     (assign (ub_username body) (\<lambda>x u. u\<lparr>username := trim e x\<rparr>)
       (assign (ub_lastname body) (\<lambda>x u. u\<lparr>lastname := trim e x\<rparr>)
         (assign (ub_firstname body) (\<lambda>x u. u\<lparr>firstname := trim e x\<rparr>) u)))"
  define modified where "modified = assigned (ub_firstname body) ''firstname'' @
                    assigned (ub_lastname body) ''lastname'' @
                    assigned (ub_username body) ''username'' @
                    assigned (ub_role body) ''role''"
  have i: "user_oid u = i"
    using Some by (auto simp: User_findById_def dest: find_Some_iff [THEN iffD1])
  have oid: "user_oid u4 = i"
    unfolding u4_def by (simp add: assign_keeps i)
  have pw: "password u4 = password u"
    unfolding u4_def by (simp add: assign_keeps)
  have m: "''password'' \<notin> set modified"
    unfolding modified_def by (simp add: assigned_not_password)
  have save: "map password (users (snd (case User_save e st modified u4 of
                    Inl error \<Rightarrow> (Thrown error, st)
                  | Inr (updatedUser, st') \<Rightarrow> (Json 200 updatedUser, st')))) =
              map password (users st)"
  proof (cases "User_save e st modified u4")
    case (Inl a)
    then show ?thesis by simp
  next
    case (Inr b)
    obtain r st' where b: "b = (r, st')" by (cases b)
    have "map password (users st') = map password (users st)"
      using Inr Some pw m unfolding b
      by (intro User_save_password [where u = u and u' = u4]) (simp_all add: oid)
    then show ?thesis using Inr b by simp
  qed
  show ?thesis
    using Some save by (simp add: updateUser_def Let_def u4_def modified_def)
qed

text \<open>
  C7, as the code has it. The update route for users does not read the password of the
  body: the passwords of all stored users are after the request what they were before,
  and a request with a password is handled as the same request without it. The
  password is hashed only where a handler assigns it before saving (registration).
\<close>

theorem updateUser_keeps_password:
  "map password (users (snd (put_user e st token i body))) = map password (users st) \<and>
   put_user e st token i (body\<lparr>ub_password := p\<rparr>) = put_user e st token i body"
  by (simp add: put_user_def updateUser_passwords updateUser_password_irrelevant
        split: sum.splits option.splits)

text \<open>
  The admin sends the password \<open>newsecret\<close> for user 4: the request succeeds and the
  stored password of user 4 is the old hash, not the hash of \<open>newsecret\<close>.
\<close>

theorem updateUser_keeps_password_counterexample:
  "protect example_env example_store (Some ''jwt-1'') = (Inr admin1 :: user response + user) \<and>
   role admin1 = ''admin'' \<and>
   ub_password (password_patch ''newsecret'') = Some ''newsecret'' \<and>
   put_user example_env example_store (Some ''jwt-1'') 4 (password_patch ''newsecret'') =
     (Json 200 user4, example_store) \<and>
   map_option password (User_findById (snd (put_user example_env example_store (Some ''jwt-1'') 4
      (password_patch ''newsecret''))) (Some 4)) = Some ''$2a$10$secret4'' \<and>
   bcrypt_hash example_env ''newsecret'' \<noteq> ''$2a$10$secret4''"
proof -
  let ?body = "password_patch ''newsecret''"
  have a: "authorize [''admin''] admin1 = (None :: user response option)"
    by (simp add: authorize_def admin1_def)
  have f: "User_findById example_store (Some 4) = Some user4"
    by (simp add: User_findById_def example_store_def admin1_def owner2_def owner3_def user4_def)
  have s: "User_save example_env example_store [] user4 = Inr (user4, example_store)"
    by (simp add: User_save_def userSchema_valid_def username_taken_def pre_save_def
          example_store_def admin1_def owner2_def owner3_def user4_def)
  have u: "updateUser example_env [] example_store 4 ?body = (Json 200 user4, example_store)"
    by (simp add: updateUser_def f password_patch_def assign_def assigned_def notEmpty_def s)
  show ?thesis
    by (simp add: put_user_def protect_example a u f)
       (simp add: admin1_def user4_def password_patch_def example_env_def)
qed

theorem updateUser_keeps_password_witness:
  "map password (users (snd (put_user example_env example_store (Some ''jwt-1'') 4
      (password_patch ''newsecret'')))) =
     [''$2a$10$secret1'', ''$2a$10$secret2'', ''$2a$10$secret3'', ''$2a$10$secret4'']"
  using updateUser_keeps_password [of example_env example_store "Some ''jwt-1''" 4
      "password_patch ''newsecret''"]
  by (simp add: example_store_def admin1_def owner2_def owner3_def user4_def)

section \<open>Who sets a status\<close>

text \<open>
  C2 at a failing input. User 4 has the role \<open>user\<close>, made booking 20 and does not own
  venue 11, where the booking is. The update route, which mounts no validator and hands
  the whole body to the store, takes \<open>{status: "bo'lib o'tgan"}\<close> from this user and
  stores the new status; the status route refuses the same user and body with 403.
\<close>

theorem updateBooking_sets_status:
  "protect example_env example_store (Some ''jwt-4'') = (Inr user4 :: booking option response + user) \<and>
   role user4 = ''user'' \<and> user_id booking20 = user_oid user4 \<and>
   owner_id venue11 \<noteq> user_oid user4 \<and> venue_id booking20 = venue_oid venue11 \<and>
   booking_status booking20 = ''endi bo'ladigan'' \<and>
   put_booking example_env example_store (Some ''jwt-4'') 20 (status_patch ''bo'lib o'tgan'') =
     (Json 200 (Some (booking20\<lparr>booking_status := ''bo'lib o'tgan''\<rparr>)),
      example_store\<lparr>bookings := [booking20\<lparr>booking_status := ''bo'lib o'tgan''\<rparr>]\<rparr>) \<and>
   put_booking_status example_env example_store (Some ''jwt-4'') 20 (status_patch ''bo'lib o'tgan'') =
     (AppError ''Not authorized to change booking status'' 403, example_store)"
proof -
  let ?patch = "status_patch ''bo'lib o'tgan''"
  have facts: "role user4 = ''user''" "user_id booking20 = user_oid user4"
    "owner_id venue11 \<noteq> user_oid user4"
    "booking_status booking20 = ''endi bo'ladigan''" "venue_id booking20 = 11"
    "booking_oid booking20 = 20" "venue_oid venue11 = 11"
    by (simp_all add: user4_def booking20_def venue11_def)
  have d: "reservation_date_check example_env example_store booking20 ?patch =
             (None :: booking option response option)"
    by (simp add: reservation_date_check_def status_patch_def no_booking_fields_def notEmpty_def)
  have g: "guest_count_check example_env example_store booking20 ?patch =
             (None :: booking option response option)"
    by (simp add: guest_count_check_def status_patch_def no_booking_fields_def truthy_number_def)
  have s: "booking_set example_env ?patch = (\<lambda>b. b\<lparr>booking_status := ''bo'lib o'tgan''\<rparr>)"
    by (rule ext) (simp add: booking_set_def status_patch_def no_booking_fields_def new_Date_def)
  have upd: "Booking_findByIdAndUpdate example_env example_store 20 ?patch =
      Inr (Some (booking20\<lparr>booking_status := ''bo'lib o'tgan''\<rparr>),
           example_store\<lparr>bookings := [booking20\<lparr>booking_status := ''bo'lib o'tgan''\<rparr>]\<rparr>)"
    unfolding Booking_findByIdAndUpdate_def Booking_findById_example s
    by (simp add: status_patch_def no_booking_fields_def booking_update_valid_def
          booking_statuses_def index_taken_def facts)
       (simp add: example_store_def facts)
  have put: "put_booking example_env example_store (Some ''jwt-4'') 20 ?patch =
     (Json 200 (Some (booking20\<lparr>booking_status := ''bo'lib o'tgan''\<rparr>)),
      example_store\<lparr>bookings := [booking20\<lparr>booking_status := ''bo'lib o'tgan''\<rparr>]\<rparr>)"
    by (simp add: put_booking_def protect_example updateBooking_def Booking_findById_example
          facts d g upd)
  have v: "validateBookingStatus ?patch = []"
    by (simp add: validateBookingStatus_def check_def notEmpty_def status_patch_def
          no_booking_fields_def booking_statuses_def)
  have st: "put_booking_status example_env example_store (Some ''jwt-4'') 20 ?patch =
     (AppError ''Not authorized to change booking status'' 403, example_store)"
    by (simp add: put_booking_status_def protect_example v changeBookingStatus_def
          Booking_findById_example facts Venue_findById_example)
  show ?thesis
    using put st by (simp add: protect_example facts)
qed

text \<open>
  C3 at a failing input. Owner 2 posts a venue with \<open>status: "tasdiqlangan"\<close>: the body
  passes \<open>validateVenue\<close>, the handler spreads it into the new document, and the venue is
  stored as approved. The update route drops the same field of the same owner, and venue
  10 keeps its status.
\<close>

theorem createVenue_stores_supplied_status:
  "protect example_env example_store (Some ''jwt-2'') = (Inr owner2 :: venue response + user) \<and>
   role owner2 = ''owner'' \<and>
   body_status (venue_request (Some ''tasdiqlangan'')) = Some ''tasdiqlangan'' \<and>
   post_venue example_env example_store (Some ''jwt-2'') (venue_request (Some ''tasdiqlangan'')) =
     (Json 201 venue21, example_store\<lparr>venues := [venue10, venue11, venue21], next_oid := 22\<rparr>) \<and>
   status venue21 = ''tasdiqlangan'' \<and>
   fst (put_venue example_env example_store (Some ''jwt-2'') 10 (venue_request (Some ''tasdiqlangan''))) =
     Json 200 (Some (venue_set example_env (venue_request None) venue10)) \<and>
   status (venue_set example_env (venue_request None) venue10) = ''tasdiqlanmagan''"
proof -
  let ?body = "venue_request (Some ''tasdiqlangan'')"
  have facts: "role owner2 = ''owner''" "user_oid owner2 = 2" "owner_id venue10 = 2"
    "status venue21 = ''tasdiqlangan''" "status venue10 = ''tasdiqlanmagan''"
    by (simp_all add: owner2_def venue10_def venue21_def)
  have a: "authorize [''owner'', ''admin''] owner2 = (None :: venue response option)"
    by (simp add: authorize_def facts)
  have c: "Venue_create example_env example_store 2 ?body =
             Inr (venue21, example_store\<lparr>venues := [venue10, venue11, venue21], next_oid := 22\<rparr>)"
    by (simp add: Venue_create_def venue_of_body_def venue_request_def venueSchema_valid_def
          venue_statuses_def example_store_def venue21_def example_env_def strip_spaces_def)
  have post: "post_venue example_env example_store (Some ''jwt-2'') ?body =
     (Json 201 venue21, example_store\<lparr>venues := [venue10, venue11, venue21], next_oid := 22\<rparr>)"
    by (simp add: post_venue_def protect_example a validateVenue_example createVenue_def facts c)
  have drop: "?body\<lparr>body_status := None\<rparr> = venue_request None"
    by (simp add: venue_request_def)
  have valid: "venue_update_casts example_env (venue_request None)"
    "venue_update_valid example_env (venue_request None)"
    by (simp_all add: venue_update_casts_def venue_update_valid_def venue_request_def
          example_env_def strip_spaces_def)
  have truthy: "notEmpty (body_status ?body)"
    by (simp add: notEmpty_def venue_request_def)
  have put: "fst (put_venue example_env example_store (Some ''jwt-2'') 10 ?body) =
     Json 200 (Some (venue_set example_env (venue_request None) venue10))"
    by (simp add: put_venue_def protect_example validateVenue_example updateVenue_def
          Venue_findById_example facts drop Venue_findByIdAndUpdate_def valid truthy Let_def)
  have keep: "status (venue_set example_env (venue_request None) venue10) = ''tasdiqlanmagan''"
    by (simp add: venue_set_def venue_request_def facts)
  show ?thesis
    using post put keep by (simp add: protect_example facts) (simp add: venue_request_def)
qed

end
